theory Spec2Isabelle
  imports Main "HOL-Library.Word" "HOL-Library.Sublist"
begin

unbundle bit_operations_syntax

section \<open>JavaScript values used by the authentication core\<close>

text \<open>
  A JavaScript string is a sequence of UTF-16 code units. The model writes it as a
  \<^typ>\<open>string\<close>, one \<^typ>\<open>char\<close> per code unit, which covers the code units below 256.
  An optional argument (\<^verbatim>\<open>state?: string\<close>) is a \<^typ>\<open>string option\<close>, \<open>None\<close> being
  \<^verbatim>\<open>undefined\<close>.
\<close>

text \<open>Truthiness of an optional string: \<^verbatim>\<open>undefined\<close> and \<^verbatim>\<open>''\<close> are falsy.\<close>

definition truthy :: "string option \<Rightarrow> bool" where
  "truthy v = (case v of None \<Rightarrow> False | Some s \<Rightarrow> s \<noteq> [])"

text \<open>
  \<^verbatim>\<open>s.charCodeAt(i)\<close> as the operand of a bitwise operator: the code unit at \<open>i\<close>, and
  \<^verbatim>\<open>NaN\<close> (which the operator reads as 0) out of range.
\<close>

definition charCodeAt :: "string \<Rightarrow> nat \<Rightarrow> 32 word" where
  "charCodeAt s i = (if i < length s then of_char (s ! i) else 0)"

text \<open>
  \<^verbatim>\<open>String.prototype.trim\<close> removes white space and line terminators from both ends; the
  class \<^verbatim>\<open>\s\<close> of a regular expression is the same set. Below 256 these are the code units
  9 to 13, 32 and 160.
\<close>

definition is_whitespace :: "char \<Rightarrow> bool" where
  "is_whitespace c = ((of_char c :: nat) \<in> {9, 10, 11, 12, 13, 32, 160})"

definition trim :: "string \<Rightarrow> string" where
  "trim s = rev (dropWhile is_whitespace (rev (dropWhile is_whitespace s)))"

text \<open>
  \<^verbatim>\<open>String.prototype.toLowerCase\<close>: below 256 the code units with a lower-case partner are
  A to Z and 192 to 222 without 215, each 32 below its partner.
\<close>

definition toLowerCase_char :: "char \<Rightarrow> char" where
  "toLowerCase_char c =
     (let n = (of_char c :: nat)
      in if (65 \<le> n \<and> n \<le> 90) \<or> (192 \<le> n \<and> n \<le> 222 \<and> n \<noteq> 215) then char_of (n + 32) else c)"

definition toLowerCase :: "string \<Rightarrow> string" where
  "toLowerCase s = map toLowerCase_char s"

text \<open>\<^verbatim>\<open>s.includes(sub)\<close>: \<open>sub\<close> occurs in \<open>s\<close> as a contiguous run.\<close>

fun str_includes :: "string \<Rightarrow> string \<Rightarrow> bool" where
  "str_includes [] sub = (sub = [])"
| "str_includes (c # cs) sub = (prefix sub (c # cs) \<or> str_includes cs sub)"

subsection \<open>Dates\<close>

text \<open>
  A \<^verbatim>\<open>Date\<close> holds a time value, milliseconds since the epoch, or \<^verbatim>\<open>NaN\<close> (an invalid
  date, here \<open>None\<close>). \<^verbatim>\<open>new Date(t)\<close> of a number clips: a time value beyond
  8.64e15 ms on either side gives an invalid date. Every comparison with an invalid date is
  false.
\<close>

type_synonym Date = "int option"

definition new_Date :: "int \<Rightarrow> Date" where
  "new_Date t = (if \<bar>t\<bar> \<le> 8640000000000000 then Some t else None)"

definition Date_gt :: "Date \<Rightarrow> Date \<Rightarrow> bool" where
  "Date_gt a b = (case (a, b) of (Some x, Some y) \<Rightarrow> x > y | _ \<Rightarrow> False)"

text \<open>Decimal digits, zero-padded to a fixed width (the argument is not negative).\<close>

definition digit :: "int \<Rightarrow> char" where
  "digit n = char_of (48 + n mod 10)"

definition pad2 :: "int \<Rightarrow> string" where
  "pad2 n = [digit (n div 10), digit n]"

definition pad3 :: "int \<Rightarrow> string" where
  "pad3 n = digit (n div 100) # pad2 n"

definition pad4 :: "int \<Rightarrow> string" where
  "pad4 n = digit (n div 1000) # pad3 n"

definition pad6 :: "int \<Rightarrow> string" where
  "pad6 n = digit (n div 100000) # digit (n div 10000) # pad4 n"

text \<open>
  The proleptic Gregorian date (year, month, day) of a count of days since 1970-01-01.
  \<open>div\<close> rounds down, also for days before the epoch.
\<close>

definition civil_from_days :: "int \<Rightarrow> int \<times> int \<times> int" where
  "civil_from_days days =
     (let z = days + 719468;
          era = z div 146097;
          doe = z - era * 146097;
          yoe = (doe - doe div 1460 + doe div 36524 - doe div 146096) div 365;
          doy = doe - (365 * yoe + yoe div 4 - yoe div 100);
          mp = (5 * doy + 2) div 153;
          d = doy - (153 * mp + 2) div 5 + 1;
          m = (if mp < 10 then mp + 3 else mp - 9);
          y = yoe + era * 400
      in (if m \<le> 2 then y + 1 else y, m, d))"

text \<open>
  \<^verbatim>\<open>Date.prototype.toISOString\<close> of a valid time value: \<^verbatim>\<open>YYYY-MM-DDTHH:mm:ss.sssZ\<close> in
  UTC, the year with a sign and six digits outside 0 to 9999. On an invalid date it throws
  a \<^verbatim>\<open>RangeError\<close>; the callers below make that case explicit.
\<close>

definition toISOString :: "int \<Rightarrow> string" where
  "toISOString t =
     (let (y, m, d) = civil_from_days (t div 86400000);
          r = t mod 86400000
      in (if 0 \<le> y \<and> y \<le> 9999 then pad4 y
          else (if y < 0 then ''-'' else ''+'') @ pad6 \<bar>y\<bar>)
         @ ''-'' @ pad2 m @ ''-'' @ pad2 d @ ''T'' @ pad2 (r div 3600000) @ '':''
         @ pad2 (r div 60000 mod 60) @ '':'' @ pad2 (r div 1000 mod 60) @ ''.''
         @ pad3 (r mod 1000) @ ''Z'')"

text \<open>
  SQLite's \<^verbatim>\<open>datetime('now')\<close> when the clock reads \<open>t\<close> ms since the epoch:
  \<^verbatim>\<open>YYYY-MM-DD HH:MM:SS\<close> in UTC (years 0 to 9999).
\<close>

definition sqlite_datetime :: "int \<Rightarrow> string" where
  "sqlite_datetime t =
     (let (y, m, d) = civil_from_days (t div 86400000);
          r = t mod 86400000
      in pad4 y @ ''-'' @ pad2 m @ ''-'' @ pad2 d @ '' '' @ pad2 (r div 3600000) @ '':''
         @ pad2 (r div 60000 mod 60) @ '':'' @ pad2 (r div 1000 mod 60))"

text \<open>
  SQLite compares two \<^verbatim>\<open>TEXT\<close> values under the default \<^verbatim>\<open>BINARY\<close> collation byte by
  byte, a proper prefix being smaller.
\<close>

fun text_less :: "string \<Rightarrow> string \<Rightarrow> bool" where
  "text_less [] [] = False"
| "text_less [] (y # ys) = True"
| "text_less (x # xs) [] = False"
| "text_less (x # xs) (y # ys) =
     ((of_char x :: nat) < of_char y \<or> (x = y \<and> text_less xs ys))"

section \<open>models/interfaces and config/oauthErrors: errors\<close>

datatype ErrorType =
  AUTHENTICATION_FAILED | SESSION_EXPIRED | USER_NOT_FOUND | DATABASE_ERROR
  | OAUTH_ERROR | TEMPLATE_ERROR | VALIDATION_ERROR

datatype OAuthErrorType =
  INVALID_STATE | PROVIDER_ERROR | PROFILE_ERROR | TOKEN_ERROR | CALLBACK_ERROR

text \<open>
  The \<^verbatim>\<open>type\<close> field of an \<^verbatim>\<open>AppError\<close> holds an \<^verbatim>\<open>ErrorType\<close> or, through the cast in
  \<^verbatim>\<open>createOAuthError\<close>, an \<^verbatim>\<open>OAuthErrorType\<close>. The free-form \<^verbatim>\<open>details\<close> field, which no
  code path reads, is left out.
\<close>

datatype error_type = App ErrorType | OAuth OAuthErrorType

record AppError =
  etype :: error_type
  message :: string
  statusCode :: int

text \<open>
  What a \<^verbatim>\<open>throw\<close> carries: an object of the \<^verbatim>\<open>AppError\<close> shape, or an \<^verbatim>\<open>Error\<close>
  (\<^verbatim>\<open>new Error(m)\<close>, a \<^verbatim>\<open>SqliteError\<close>, a \<^verbatim>\<open>RangeError\<close>) with its message. The type guard
  \<^verbatim>\<open>isAppError\<close> asks for the three fields \<^verbatim>\<open>type\<close>, \<^verbatim>\<open>message\<close> and \<^verbatim>\<open>statusCode\<close>, which
  an \<^verbatim>\<open>Error\<close> does not have.
\<close>

datatype thrown = AppErr AppError | JsError string

fun isAppError :: "thrown \<Rightarrow> bool" where
  "isAppError (AppErr e) = True"
| "isAppError (JsError m) = False"

fun thrown_message :: "thrown \<Rightarrow> string" where
  "thrown_message (AppErr e) = message e"
| "thrown_message (JsError m) = m"

text \<open>\<^verbatim>\<open>createOAuthError(type, message, statusCode = 400, details?)\<close>\<close>

definition createOAuthError :: "OAuthErrorType \<Rightarrow> string \<Rightarrow> int \<Rightarrow> AppError" where
  "createOAuthError t msg code = \<lparr>etype = OAuth t, message = msg, statusCode = code\<rparr>"

text \<open>
  \<^verbatim>\<open>handleOAuthError(error, provider)\<close> looks only at \<^verbatim>\<open>error.message\<close> and builds a new
  error: the type and the status code of the error it is given are dropped.
\<close>

definition handleOAuthError :: "thrown \<Rightarrow> string \<Rightarrow> AppError" where
  "handleOAuthError error provider =
     (if str_includes (thrown_message error) ''Invalid state parameter''
      then createOAuthError INVALID_STATE
             ''Authentication request validation failed. Please try again.'' 400
      else if str_includes (thrown_message error) ''access_denied''
      then createOAuthError PROVIDER_ERROR
             (''Access denied by '' @ provider @ ''. Please grant the required permissions.'') 403
      else if str_includes (thrown_message error) ''invalid_client''
      then createOAuthError PROVIDER_ERROR
             ''OAuth configuration error. Please contact support.'' 500
      else if str_includes (thrown_message error) ''User not found''
      then createOAuthError PROFILE_ERROR
             ''Failed to retrieve user profile. Please try again.'' 500
      else createOAuthError CALLBACK_ERROR
             (''Authentication with '' @ provider @ '' failed. Please try again.'') 500)"

section \<open>config/oauthErrors: the state-token validator\<close>

text \<open>
  \<^verbatim>\<open>
  let result = 0;
  for (let i = 0; i < requestState.length; i++) {
    result |= requestState.charCodeAt(i) ^ sessionState.charCodeAt(i);
  }
  \<close>
  The loop as a recursion on its two variables; it returns both at exit.
\<close>

function validate_loop :: "string \<Rightarrow> string \<Rightarrow> nat \<Rightarrow> 32 word \<Rightarrow> nat \<times> 32 word" where
  "validate_loop requestState sessionState i result =
     (if i < length requestState
      then validate_loop requestState sessionState (Suc i)
             (result OR (charCodeAt requestState i XOR charCodeAt sessionState i))
      else (i, result))"
  by pat_completeness auto
termination
  by (relation "measure (\<lambda>(requestState, sessionState, i, result). length requestState - i)") auto

declare validate_loop.simps [simp del]

definition validateOAuthState :: "string option \<Rightarrow> string option \<Rightarrow> bool" where
  "validateOAuthState requestState sessionState =
     (if \<not> truthy requestState \<or> \<not> truthy sessionState then False
      else if length (the requestState) \<noteq> length (the sessionState) then False
      else snd (validate_loop (the requestState) (the sessionState) 0 0) = 0)"


section \<open>models/interfaces and models/User\<close>

record UserProfile =
  prof_id :: string
  prof_username :: string
  prof_email :: string
  prof_provider :: string

text \<open>\<^verbatim>\<open>Partial<UserProfile>\<close>: a field that is \<open>None\<close> is \<^verbatim>\<open>undefined\<close>.\<close>

record PartialUserProfile =
  part_id :: "string option"
  part_username :: "string option"
  part_email :: "string option"
  part_provider :: "string option"

record User =
  user_id :: string
  user_username :: string
  user_email :: string
  user_provider :: string
  user_providerId :: string
  user_createdAt :: Date
  user_updatedAt :: Date

text \<open>
  The argument of the \<^verbatim>\<open>User\<close> constructor. Both callers, \<^verbatim>\<open>fromProfile\<close> and
  \<^verbatim>\<open>fromDatabaseRow\<close>, pass the four strings and the two dates, and a \<^verbatim>\<open>Date\<close> object is
  truthy, so of the constructor's defaults only \<^verbatim>\<open>data.id || uuidv4()\<close> can apply (the
  default \<^verbatim>\<open>''\<close> of a string field returns an empty string as it is). The first argument
  of \<open>User_new\<close> is the value \<^verbatim>\<open>uuidv4()\<close> returns when it is called.
\<close>

record UserData =
  data_id :: "string option"
  data_username :: string
  data_email :: string
  data_provider :: string
  data_providerId :: string
  data_createdAt :: Date
  data_updatedAt :: Date

definition User_new :: "string \<Rightarrow> UserData \<Rightarrow> User" where
  "User_new uuid data =
     \<lparr>user_id = (if truthy (data_id data) then the (data_id data) else uuid),
      user_username = data_username data,
      user_email = data_email data,
      user_provider = data_provider data,
      user_providerId = data_providerId data,
      user_createdAt = data_createdAt data,
      user_updatedAt = data_updatedAt data\<rparr>"

text \<open>
  \<^verbatim>\<open>User.fromProfile\<close> reads the clock twice (\<open>t1\<close>, \<open>t2\<close>); a clock reading is a valid
  time value.
\<close>

definition User_fromProfile :: "string \<Rightarrow> int \<Rightarrow> int \<Rightarrow> UserProfile \<Rightarrow> User" where
  "User_fromProfile uuid t1 t2 profile =
     User_new uuid
       \<lparr>data_id = None,
        data_username = prof_username profile,
        data_email = prof_email profile,
        data_provider = prof_provider profile,
        data_providerId = prof_id profile,
        data_createdAt = Some t1,
        data_updatedAt = Some t2\<rparr>"

text \<open>
  A row of the \<^verbatim>\<open>users\<close> table. The two \<^verbatim>\<open>DATETIME\<close> columns hold the text that
  \<^verbatim>\<open>toISOString\<close> wrote; a row carries the time value \<open>t\<close> whose text
  \<^term>\<open>toISOString t\<close> is stored, and \<^verbatim>\<open>new Date(text)\<close> reads that time value back.
\<close>

record user_row =
  row_id :: string
  row_username :: string
  row_email :: string
  row_provider :: string
  row_provider_id :: string
  row_created_at :: int
  row_updated_at :: int

definition User_fromDatabaseRow :: "string \<Rightarrow> user_row \<Rightarrow> User" where
  "User_fromDatabaseRow uuid row =
     User_new uuid
       \<lparr>data_id = Some (row_id row),
        data_username = row_username row,
        data_email = row_email row,
        data_provider = row_provider row,
        data_providerId = row_provider_id row,
        data_createdAt = new_Date (row_created_at row),
        data_updatedAt = new_Date (row_updated_at row)\<rparr>"

text \<open>
  \<^verbatim>\<open>/^[^\s@]+@[^\s@]+\.[^\s@]+$/\<close>: a non-empty run without white space or \<^verbatim>\<open>@\<close>, one
  \<^verbatim>\<open>@\<close>, and then such a run again that has a dot with at least one character on each side.
\<close>

definition email_atom :: "char \<Rightarrow> bool" where
  "email_atom c = (\<not> is_whitespace c \<and> c \<noteq> CHR ''@'')"

definition isValidEmail :: "string \<Rightarrow> bool" where
  "isValidEmail e =
     (takeWhile email_atom e \<noteq> [] \<and>
      (case dropWhile email_atom e of
         [] \<Rightarrow> False
       | c # domain \<Rightarrow>
           c = CHR ''@'' \<and> list_all email_atom domain \<and>
           list_ex (\<lambda>i. domain ! i = CHR ''.'') [1..<length domain - 1]))"

definition isValidProvider :: "string \<Rightarrow> bool" where
  "isValidProvider p = (toLowerCase p \<in> set [''microsoft'', ''github''])"

definition validation_error :: "string \<Rightarrow> AppError" where
  "validation_error msg = \<lparr>etype = App VALIDATION_ERROR, message = msg, statusCode = 400\<rparr>"

definition User_validate :: "User \<Rightarrow> AppError list" where
  "User_validate u =
     (if user_username u = [] \<or> trim (user_username u) = []
      then [validation_error ''Username is required''] else [])
     @ (if user_email u = [] \<or> \<not> isValidEmail (user_email u)
        then [validation_error ''Valid email is required''] else [])
     @ (if user_provider u = [] \<or> \<not> isValidProvider (user_provider u)
        then [validation_error ''Valid provider is required (microsoft or github)''] else [])
     @ (if user_providerId u = [] \<or> trim (user_providerId u) = []
        then [validation_error ''Provider ID is required''] else [])"

text \<open>
  \<^verbatim>\<open>User.update(data)\<close> assigns the fields of \<open>data\<close> that are not \<^verbatim>\<open>undefined\<close> and sets
  \<^verbatim>\<open>updatedAt\<close> to the clock reading \<open>now\<close>.
\<close>

record UserUpdate =
  upd_username :: "string option"
  upd_email :: "string option"
  upd_provider :: "string option"
  upd_providerId :: "string option"

definition User_update :: "int \<Rightarrow> UserUpdate \<Rightarrow> User \<Rightarrow> User" where
  "User_update now data u =
     u\<lparr>user_username := (case upd_username data of None \<Rightarrow> user_username u | Some v \<Rightarrow> v),
       user_email := (case upd_email data of None \<Rightarrow> user_email u | Some v \<Rightarrow> v),
       user_provider := (case upd_provider data of None \<Rightarrow> user_provider u | Some v \<Rightarrow> v),
       user_providerId := (case upd_providerId data of None \<Rightarrow> user_providerId u | Some v \<Rightarrow> v),
       user_updatedAt := Some now\<rparr>"

text \<open>\<^verbatim>\<open>User.toDatabaseRow\<close>: \<^verbatim>\<open>toISOString\<close> throws on an invalid date.\<close>

definition User_toDatabaseRow :: "User \<Rightarrow> thrown + user_row" where
  "User_toDatabaseRow u =
     (case (user_createdAt u, user_updatedAt u) of
        (Some c, Some m) \<Rightarrow>
          Inr \<lparr>row_id = user_id u, row_username = user_username u, row_email = user_email u,
               row_provider = user_provider u, row_provider_id = user_providerId u,
               row_created_at = c, row_updated_at = m\<rparr>
      | _ \<Rightarrow> Inl (JsError ''Invalid time value''))"

section \<open>database: the two tables and the statements the services run\<close>

text \<open>
  \<^verbatim>\<open>
  users(id TEXT PRIMARY KEY, username, email, provider, provider_id, created_at, updated_at,
        UNIQUE(provider, provider_id))
  sessions(id TEXT PRIMARY KEY, user_id, created_at, expires_at,
        FOREIGN KEY (user_id) REFERENCES users (id) ON DELETE CASCADE)
  \<close>
  with \<^verbatim>\<open>foreign_keys = ON\<close>. A statement on a closed connection throws; a statement that
  breaks a constraint throws a \<^verbatim>\<open>SqliteError\<close> and changes nothing. Text is compared
  byte by byte, so \<^verbatim>\<open>=\<close> on the text columns is equality of strings.
\<close>

record session_row =
  srow_id :: string
  srow_user_id :: string
  srow_created_at :: int
  srow_expires_at :: int

record database =
  db_open :: bool
  users :: "user_row list"
  sessions :: "session_row list"

definition not_open :: thrown where
  "not_open = JsError ''The database connection is not open''"

text \<open>\<^verbatim>\<open>SELECT * FROM users WHERE provider_id = ? AND provider = ?\<close>\<close>

definition sql_users_by_provider :: "database \<Rightarrow> string \<Rightarrow> string \<Rightarrow> thrown + user_row option" where
  "sql_users_by_provider db pid p =
     (if \<not> db_open db then Inl not_open
      else Inr (find (\<lambda>r. row_provider_id r = pid \<and> row_provider r = p) (users db)))"

text \<open>\<^verbatim>\<open>SELECT * FROM users WHERE id = ?\<close>\<close>

definition sql_users_by_id :: "database \<Rightarrow> string \<Rightarrow> thrown + user_row option" where
  "sql_users_by_id db i =
     (if \<not> db_open db then Inl not_open
      else Inr (find (\<lambda>r. row_id r = i) (users db)))"

text \<open>\<^verbatim>\<open>INSERT INTO users (...) VALUES (...)\<close>; the result is the number of changes.\<close>

definition sql_users_insert :: "database \<Rightarrow> user_row \<Rightarrow> thrown + nat \<times> database" where
  "sql_users_insert db row =
     (if \<not> db_open db then Inl not_open
      else if list_ex (\<lambda>r. row_id r = row_id row) (users db)
      then Inl (JsError ''UNIQUE constraint failed: users.id'')
      else if list_ex (\<lambda>r. row_provider r = row_provider row \<and>
                             row_provider_id r = row_provider_id row) (users db)
      then Inl (JsError ''UNIQUE constraint failed: users.provider, users.provider_id'')
      else Inr (1, db\<lparr>users := users db @ [row]\<rparr>))"

text \<open>
  \<^verbatim>\<open>UPDATE users SET username = ?, email = ?, provider = ?, provider_id = ?, updated_at = ?
  WHERE id = ?\<close>, the values taken from \<open>row\<close>.
\<close>

definition sql_users_update :: "database \<Rightarrow> user_row \<Rightarrow> thrown + nat \<times> database" where
  "sql_users_update db row =
     (let hit = filter (\<lambda>r. row_id r = row_id row) (users db);
          rest = filter (\<lambda>r. row_id r \<noteq> row_id row) (users db)
      in if \<not> db_open db then Inl not_open
         else if hit \<noteq> [] \<and>
                 (1 < length hit \<or>
                  list_ex (\<lambda>r. row_provider r = row_provider row \<and>
                                row_provider_id r = row_provider_id row) rest)
         then Inl (JsError ''UNIQUE constraint failed: users.provider, users.provider_id'')
         else Inr (length hit,
                   db\<lparr>users :=
                        map (\<lambda>r. if row_id r = row_id row
                                  then r\<lparr>row_username := row_username row,
                                         row_email := row_email row,
                                         row_provider := row_provider row,
                                         row_provider_id := row_provider_id row,
                                         row_updated_at := row_updated_at row\<rparr>
                                  else r) (users db)\<rparr>))"

text \<open>\<^verbatim>\<open>DELETE FROM users WHERE id = ?\<close>, cascading to the sessions of the user.\<close>

definition sql_users_delete :: "database \<Rightarrow> string \<Rightarrow> thrown + nat \<times> database" where
  "sql_users_delete db i =
     (if \<not> db_open db then Inl not_open
      else Inr (length (filter (\<lambda>r. row_id r = i) (users db)),
                db\<lparr>users := filter (\<lambda>r. row_id r \<noteq> i) (users db),
                   sessions :=
                     (if list_ex (\<lambda>r. row_id r = i) (users db)
                      then filter (\<lambda>s. srow_user_id s \<noteq> i) (sessions db)
                      else sessions db)\<rparr>))"

section \<open>services/UserService\<close>

text \<open>
  Each method is a \<^verbatim>\<open>try\<close> block and a \<^verbatim>\<open>catch\<close> handler. The result of a method is
  \<open>Inl\<close> of what it throws or \<open>Inr\<close> of what it returns; a method that writes also returns
  the database. Values that the platform supplies during a call are arguments: \<open>uuid\<close> is
  what \<^verbatim>\<open>uuidv4()\<close> returns, \<open>now\<close>, \<open>t1\<close>, \<open>t2\<close> are clock readings.
\<close>

definition sanitizeInput :: "string \<Rightarrow> string" where
  "sanitizeInput input = trim input"

definition database_error :: "string \<Rightarrow> AppError" where
  "database_error msg = \<lparr>etype = App DATABASE_ERROR, message = msg, statusCode = 500\<rparr>"

definition conflict_error :: AppError where
  "conflict_error =
     \<lparr>etype = App VALIDATION_ERROR, message = ''User already exists with this provider ID'',
      statusCode = 409\<rparr>"

text \<open>
  The handler \<^verbatim>\<open>if (this.isAppError(error)) { throw error; } throw { ...wrapped };\<close>
\<close>

definition rethrow_or :: "thrown \<Rightarrow> AppError \<Rightarrow> thrown" where
  "rethrow_or error wrapped = (if isAppError error then error else AppErr wrapped)"

definition findByProviderId_try :: "string \<Rightarrow> string \<Rightarrow> string \<Rightarrow> database \<Rightarrow> thrown + User option" where
  "findByProviderId_try uuid providerId provider db =
     (let sanitizedProviderId = sanitizeInput providerId;
          sanitizedProvider = sanitizeInput provider
      in if sanitizedProviderId = [] \<or> sanitizedProvider = []
         then Inl (AppErr (validation_error ''Provider ID and provider are required''))
         else if \<not> isValidProvider sanitizedProvider
         then Inl (AppErr (validation_error ''Invalid provider. Must be microsoft or github''))
         else (case sql_users_by_provider db sanitizedProviderId sanitizedProvider of
                 Inl e \<Rightarrow> Inl e
               | Inr None \<Rightarrow> Inr None
               | Inr (Some row) \<Rightarrow> Inr (Some (User_fromDatabaseRow uuid row))))"

definition findByProviderId :: "string \<Rightarrow> string \<Rightarrow> string \<Rightarrow> database \<Rightarrow> thrown + User option" where
  "findByProviderId uuid providerId provider db =
     (case findByProviderId_try uuid providerId provider db of
        Inl e \<Rightarrow> Inl (rethrow_or e (database_error ''Failed to find user by provider ID''))
      | Inr r \<Rightarrow> Inr r)"

text \<open>
  \<^verbatim>\<open>createUser\<close>, in the two parts that its \<^verbatim>\<open>await\<close> separates: up to the answer of
  \<^verbatim>\<open>findByProviderId\<close>, and from there on. Another call can run between the two.
  \<open>uuid_row\<close> is for the \<^verbatim>\<open>User\<close> that the lookup builds, \<open>uuid\<close> for the new one.
\<close>

definition createUser_lookup ::
  "string \<Rightarrow> string \<Rightarrow> int \<Rightarrow> int \<Rightarrow> UserProfile \<Rightarrow> database \<Rightarrow> thrown + User" where
  "createUser_lookup uuid_row uuid t1 t2 profile db =
     (let sanitizedProfile =
            \<lparr>prof_id = sanitizeInput (prof_id profile),
             prof_username = sanitizeInput (prof_username profile),
             prof_email = sanitizeInput (prof_email profile),
             prof_provider = prof_provider profile\<rparr>;
          user = User_fromProfile uuid t1 t2 sanitizedProfile
      in if User_validate user \<noteq> []
         then Inl (AppErr (validation_error ''User validation failed''))
         else (case findByProviderId uuid_row (prof_id sanitizedProfile)
                      (prof_provider sanitizedProfile) db of
                 Inl e \<Rightarrow> Inl e
               | Inr (Some existingUser) \<Rightarrow> Inl (AppErr conflict_error)
               | Inr None \<Rightarrow> Inr user))"

definition createUser_insert :: "User \<Rightarrow> database \<Rightarrow> (thrown + User) \<times> database" where
  "createUser_insert user db =
     (case User_toDatabaseRow user of
        Inl e \<Rightarrow> (Inl e, db)
      | Inr dbRow \<Rightarrow>
          (case sql_users_insert db dbRow of
             Inl e \<Rightarrow> (Inl e, db)
           | Inr (changes, db') \<Rightarrow>
               if changes = 0
               then (Inl (AppErr (database_error ''Failed to create user - no rows affected'')), db')
               else (Inr user, db')))"

definition createUser_catch :: "thrown \<Rightarrow> thrown" where
  "createUser_catch error =
     (if isAppError error then error
      else if str_includes (thrown_message error) ''UNIQUE constraint failed''
      then AppErr conflict_error
      else AppErr (database_error ''Failed to create user''))"

definition createUser ::
  "string \<Rightarrow> string \<Rightarrow> int \<Rightarrow> int \<Rightarrow> UserProfile \<Rightarrow> database \<Rightarrow> (thrown + User) \<times> database" where
  "createUser uuid_row uuid t1 t2 profile db =
     (case createUser_lookup uuid_row uuid t1 t2 profile db of
        Inl e \<Rightarrow> (Inl (createUser_catch e), db)
      | Inr user \<Rightarrow>
          (case createUser_insert user db of
             (Inl e, db') \<Rightarrow> (Inl (createUser_catch e), db')
           | (Inr created, db') \<Rightarrow> (Inr created, db')))"

definition findById :: "string \<Rightarrow> string \<Rightarrow> database \<Rightarrow> thrown + User option" where
  "findById uuid userId db =
     (let sanitizedUserId = sanitizeInput userId
      in if sanitizedUserId = [] then Inr None
         else (case sql_users_by_id db sanitizedUserId of
                 Inl e \<Rightarrow> Inl (AppErr (database_error ''Failed to find user by ID''))
               | Inr None \<Rightarrow> Inr None
               | Inr (Some row) \<Rightarrow> Inr (Some (User_fromDatabaseRow uuid row))))"

definition updateUser_try ::
  "string \<Rightarrow> int \<Rightarrow> string \<Rightarrow> PartialUserProfile \<Rightarrow> database \<Rightarrow> (thrown + User) \<times> database" where
  "updateUser_try uuid now userId profile db =
     (let sanitizedUserId = sanitizeInput userId
      in if sanitizedUserId = []
         then (Inl (AppErr (validation_error ''User ID is required'')), db)
         else (case findById uuid sanitizedUserId db of
                 Inl e \<Rightarrow> (Inl e, db)
               | Inr None \<Rightarrow>
                   (Inl (AppErr \<lparr>etype = App USER_NOT_FOUND, message = ''User not found'',
                                statusCode = 404\<rparr>), db)
               | Inr (Some existingUser) \<Rightarrow>
                   (let updateData =
                          \<lparr>upd_username = map_option sanitizeInput (part_username profile),
                           upd_email = map_option sanitizeInput (part_email profile),
                           upd_provider = map_option sanitizeInput (part_provider profile),
                           upd_providerId = map_option sanitizeInput (part_id profile)\<rparr>;
                        updated = User_update now updateData existingUser
                    in if User_validate updated \<noteq> []
                       then (Inl (AppErr (validation_error ''User validation failed'')), db)
                       else (case User_toDatabaseRow updated of
                               Inl e \<Rightarrow> (Inl e, db)
                             | Inr dbRow \<Rightarrow>
                                 (case sql_users_update db dbRow of
                                    Inl e \<Rightarrow> (Inl e, db)
                                  | Inr (changes, db') \<Rightarrow>
                                      if changes = 0
                                      then (Inl (AppErr (database_error
                                              ''Failed to update user - no rows affected'')), db')
                                      else (Inr updated, db'))))))"

definition updateUser ::
  "string \<Rightarrow> int \<Rightarrow> string \<Rightarrow> PartialUserProfile \<Rightarrow> database \<Rightarrow> (thrown + User) \<times> database" where
  "updateUser uuid now userId profile db =
     (case updateUser_try uuid now userId profile db of
        (Inl e, db') \<Rightarrow> (Inl (rethrow_or e (database_error ''Failed to update user'')), db')
      | (Inr u, db') \<Rightarrow> (Inr u, db'))"

definition deleteUser :: "string \<Rightarrow> database \<Rightarrow> (thrown + bool) \<times> database" where
  "deleteUser userId db =
     (let sanitizedUserId = sanitizeInput userId
      in if sanitizedUserId = []
         then (Inl (AppErr (validation_error ''User ID is required'')), db)
         else (case sql_users_delete db sanitizedUserId of
                 Inl e \<Rightarrow> (Inl (rethrow_or e (database_error ''Failed to delete user'')), db)
               | Inr (changes, db') \<Rightarrow> (Inr (0 < changes), db')))"

section \<open>models/Session\<close>

record Session =
  sess_id :: string
  sess_userId :: string
  sess_createdAt :: Date
  sess_expiresAt :: Date

text \<open>
  The argument of the \<^verbatim>\<open>Session\<close> constructor: as for \<^verbatim>\<open>User\<close>, every caller passes the
  user id and the two dates, so only \<^verbatim>\<open>data.id || uuidv4()\<close> can apply.
\<close>

record SessionData =
  sdata_id :: "string option"
  sdata_userId :: string
  sdata_createdAt :: Date
  sdata_expiresAt :: Date

definition Session_new :: "string \<Rightarrow> SessionData \<Rightarrow> Session" where
  "Session_new uuid data =
     \<lparr>sess_id = (if truthy (sdata_id data) then the (sdata_id data) else uuid),
      sess_userId = sdata_userId data,
      sess_createdAt = sdata_createdAt data,
      sess_expiresAt = sdata_expiresAt data\<rparr>"

definition Session_fromDatabaseRow :: "string \<Rightarrow> session_row \<Rightarrow> Session" where
  "Session_fromDatabaseRow uuid row =
     Session_new uuid
       \<lparr>sdata_id = Some (srow_id row),
        sdata_userId = srow_user_id row,
        sdata_createdAt = new_Date (srow_created_at row),
        sdata_expiresAt = new_Date (srow_expires_at row)\<rparr>"

text \<open>\<^verbatim>\<open>isExpired(): return new Date() > this.expiresAt\<close>, the clock reading \<open>now\<close>.\<close>

definition isExpired :: "int \<Rightarrow> Session \<Rightarrow> bool" where
  "isExpired now session = Date_gt (Some now) (sess_expiresAt session)"

definition isValid :: "int \<Rightarrow> Session \<Rightarrow> bool" where
  "isValid now session = (\<not> isExpired now session \<and> 0 < length (trim (sess_userId session)))"

definition Session_validate :: "int \<Rightarrow> Session \<Rightarrow> AppError list" where
  "Session_validate now session =
     (if sess_userId session = [] \<or> trim (sess_userId session) = []
      then [validation_error ''User ID is required for session''] else [])
     @ (if isExpired now session
        then [\<lparr>etype = App SESSION_EXPIRED, message = ''Session has expired'',
               statusCode = 401\<rparr>] else [])
     @ (if Date_gt (sess_createdAt session) (sess_expiresAt session)
        then [validation_error ''Session expiration time cannot be before creation time'']
        else [])"

definition Session_toDatabaseRow :: "Session \<Rightarrow> thrown + session_row" where
  "Session_toDatabaseRow session =
     (case (sess_createdAt session, sess_expiresAt session) of
        (Some c, Some e) \<Rightarrow>
          Inr \<lparr>srow_id = sess_id session, srow_user_id = sess_userId session,
               srow_created_at = c, srow_expires_at = e\<rparr>
      | _ \<Rightarrow> Inl (JsError ''Invalid time value''))"

section \<open>services/SessionManager\<close>

text \<open>\<^verbatim>\<open>SELECT 1 FROM users WHERE id = ?\<close>: whether a row came back.\<close>

definition sql_user_exists :: "database \<Rightarrow> string \<Rightarrow> thrown + bool" where
  "sql_user_exists db i =
     (if \<not> db_open db then Inl not_open
      else Inr (list_ex (\<lambda>r. row_id r = i) (users db)))"

text \<open>\<^verbatim>\<open>SELECT * FROM sessions WHERE id = ?\<close>\<close>

definition sql_sessions_by_id :: "database \<Rightarrow> string \<Rightarrow> thrown + session_row option" where
  "sql_sessions_by_id db i =
     (if \<not> db_open db then Inl not_open
      else Inr (find (\<lambda>r. srow_id r = i) (sessions db)))"

text \<open>\<^verbatim>\<open>INSERT INTO sessions (id, user_id, created_at, expires_at) VALUES (?, ?, ?, ?)\<close>\<close>

definition sql_sessions_insert :: "database \<Rightarrow> session_row \<Rightarrow> thrown + nat \<times> database" where
  "sql_sessions_insert db row =
     (if \<not> db_open db then Inl not_open
      else if list_ex (\<lambda>r. srow_id r = srow_id row) (sessions db)
      then Inl (JsError ''UNIQUE constraint failed: sessions.id'')
      else if \<not> list_ex (\<lambda>r. row_id r = srow_user_id row) (users db)
      then Inl (JsError ''FOREIGN KEY constraint failed'')
      else Inr (1, db\<lparr>sessions := sessions db @ [row]\<rparr>))"

text \<open>\<^verbatim>\<open>DELETE FROM sessions WHERE id = ?\<close>\<close>

definition sql_sessions_delete :: "database \<Rightarrow> string \<Rightarrow> thrown + nat \<times> database" where
  "sql_sessions_delete db i =
     (if \<not> db_open db then Inl not_open
      else Inr (length (filter (\<lambda>r. srow_id r = i) (sessions db)),
                db\<lparr>sessions := filter (\<lambda>r. srow_id r \<noteq> i) (sessions db)\<rparr>))"

text \<open>
  \<^verbatim>\<open>DELETE FROM sessions WHERE expires_at < datetime('now')\<close> when SQLite's clock reads
  \<open>now\<close>. Both sides are text: the stored \<^verbatim>\<open>toISOString\<close> text of the row and the text
  that \<^verbatim>\<open>datetime\<close> returns.
\<close>

definition expires_before_now :: "int \<Rightarrow> session_row \<Rightarrow> bool" where
  "expires_before_now now row =
     text_less (toISOString (srow_expires_at row)) (sqlite_datetime now)"

definition sql_sessions_delete_expired :: "database \<Rightarrow> int \<Rightarrow> thrown + nat \<times> database" where
  "sql_sessions_delete_expired db now =
     (if \<not> db_open db then Inl not_open
      else Inr (length (filter (expires_before_now now) (sessions db)),
                db\<lparr>sessions := filter (\<lambda>r. \<not> expires_before_now now r) (sessions db)\<rparr>))"

definition verifyUserExists :: "string \<Rightarrow> database \<Rightarrow> bool" where
  "verifyUserExists userId db =
     (case sql_user_exists db userId of Inl e \<Rightarrow> False | Inr found \<Rightarrow> found)"

text \<open>
  \<^verbatim>\<open>create(userId, durationMs?)\<close>. \<open>sid\<close> is what \<^verbatim>\<open>generateSecureSessionId()\<close> returns
  (32 random bytes in hex); \<open>t1\<close>, \<open>t2\<close>, \<open>t3\<close> are the clock readings of
  \<^verbatim>\<open>createdAt: new Date()\<close>, of \<^verbatim>\<open>Date.now()\<close> and of \<^verbatim>\<open>session.validate()\<close>.
  \<^verbatim>\<open>durationMs || 24 * 60 * 60 * 1000\<close> takes the default for \<^verbatim>\<open>undefined\<close> and for 0.
\<close>

definition SessionManager_create_try ::
  "string \<Rightarrow> string \<Rightarrow> int \<Rightarrow> int \<Rightarrow> int \<Rightarrow> string \<Rightarrow> int option \<Rightarrow> database
   \<Rightarrow> (thrown + Session) \<times> database" where
  "SessionManager_create_try sid uuid t1 t2 t3 userId durationMs db =
     (let sanitizedUserId = sanitizeInput userId
      in if sanitizedUserId = []
         then (Inl (AppErr (validation_error ''User ID is required to create session'')), db)
         else if \<not> verifyUserExists sanitizedUserId db
         then (Inl (AppErr \<lparr>etype = App USER_NOT_FOUND,
                             message = ''Cannot create session for non-existent user'',
                             statusCode = 404\<rparr>), db)
         else
           (let session =
                  Session_new uuid
                    \<lparr>sdata_id = Some sid,
                     sdata_userId = sanitizedUserId,
                     sdata_createdAt = Some t1,
                     sdata_expiresAt =
                       new_Date (t2 + (case durationMs of
                                         None \<Rightarrow> 24 * 60 * 60 * 1000
                                       | Some d \<Rightarrow> if d = 0 then 24 * 60 * 60 * 1000 else d))\<rparr>
            in if Session_validate t3 session \<noteq> []
               then (Inl (AppErr (validation_error ''Session validation failed'')), db)
               else (case Session_toDatabaseRow session of
                       Inl e \<Rightarrow> (Inl e, db)
                     | Inr dbRow \<Rightarrow>
                         (case sql_sessions_insert db dbRow of
                            Inl e \<Rightarrow> (Inl e, db)
                          | Inr (changes, db') \<Rightarrow>
                              if changes = 0
                              then (Inl (AppErr (database_error
                                      ''Failed to create session - no rows affected'')), db')
                              else (Inr session, db')))))"

definition SessionManager_create ::
  "string \<Rightarrow> string \<Rightarrow> int \<Rightarrow> int \<Rightarrow> int \<Rightarrow> string \<Rightarrow> int option \<Rightarrow> database
   \<Rightarrow> (thrown + Session) \<times> database" where
  "SessionManager_create sid uuid t1 t2 t3 userId durationMs db =
     (case SessionManager_create_try sid uuid t1 t2 t3 userId durationMs db of
        (Inl e, db') \<Rightarrow> (Inl (rethrow_or e (database_error ''Failed to create session'')), db')
      | (Inr session, db') \<Rightarrow> (Inr session, db'))"

definition SessionManager_destroy :: "string \<Rightarrow> database \<Rightarrow> (thrown + unit) \<times> database" where
  "SessionManager_destroy sessionId db =
     (let sanitizedSessionId = sanitizeInput sessionId
      in if sanitizedSessionId = []
         then (Inl (AppErr (validation_error ''Session ID is required'')), db)
         else (case sql_sessions_delete db sanitizedSessionId of
                 Inl e \<Rightarrow> (Inl (rethrow_or e (database_error ''Failed to destroy session'')), db)
               | Inr (changes, db') \<Rightarrow> (Inr (), db')))"

text \<open>
  \<^verbatim>\<open>validate(sessionId)\<close>: the \<^verbatim>\<open>try\<close> block, with the clock reading \<open>t1\<close> of
  \<^verbatim>\<open>session.isExpired()\<close> and \<open>t2\<close> of \<^verbatim>\<open>session.isValid()\<close>, and the handler, which logs
  and returns \<^verbatim>\<open>null\<close>.
\<close>

definition SessionManager_validate_try ::
  "string \<Rightarrow> int \<Rightarrow> int \<Rightarrow> string \<Rightarrow> database \<Rightarrow> (thrown + Session option) \<times> database" where
  "SessionManager_validate_try uuid t1 t2 sessionId db =
     (let sanitizedSessionId = sanitizeInput sessionId
      in if sanitizedSessionId = [] then (Inr None, db)
         else (case sql_sessions_by_id db sanitizedSessionId of
                 Inl e \<Rightarrow> (Inl e, db)
               | Inr None \<Rightarrow> (Inr None, db)
               | Inr (Some row) \<Rightarrow>
                   (let session = Session_fromDatabaseRow uuid row
                    in if isExpired t1 session
                       then (case SessionManager_destroy (sess_id session) db of
                               (Inl e, db') \<Rightarrow> (Inl e, db')
                             | (Inr u, db') \<Rightarrow> (Inr None, db'))
                       else if \<not> isValid t2 session then (Inr None, db)
                       else (Inr (Some session), db))))"

definition SessionManager_validate ::
  "string \<Rightarrow> int \<Rightarrow> int \<Rightarrow> string \<Rightarrow> database \<Rightarrow> Session option \<times> database" where
  "SessionManager_validate uuid t1 t2 sessionId db =
     (case SessionManager_validate_try uuid t1 t2 sessionId db of
        (Inl e, db') \<Rightarrow> (None, db')
      | (Inr r, db') \<Rightarrow> (r, db'))"

definition SessionManager_cleanup :: "int \<Rightarrow> database \<Rightarrow> (thrown + nat) \<times> database" where
  "SessionManager_cleanup now db =
     (case sql_sessions_delete_expired db now of
        Inl e \<Rightarrow> (Inl (AppErr (database_error ''Failed to cleanup expired sessions'')), db)
      | Inr (deletedCount, db') \<Rightarrow> (Inr deletedCount, db'))"

section \<open>services/AuthService\<close>

record AuthServiceImpl =
  isInitialized :: bool

text \<open>
  What lies outside the process. \<open>config_present\<close>: \<^verbatim>\<open>loadOAuthConfig()\<close> finds the four
  credentials and returns. \<open>provider_reply provider code\<close>: the outcome of
  \<^verbatim>\<open>exchangeMicrosoftCode\<close> or \<^verbatim>\<open>exchangeGitHubCode\<close>, which send the code to the provider
  over HTTPS: the normalized profile, or \<open>Inl m\<close> when they throw \<^verbatim>\<open>new Error(m)\<close>.
\<close>

record oauth_env =
  config_present :: bool
  provider_reply :: "string \<Rightarrow> string \<Rightarrow> string + UserProfile"

text \<open>
  The state a callback works on: the database, and the log of the requests sent to a
  provider, one entry (provider, code) for each call of \<^verbatim>\<open>exchangeMicrosoftCode\<close> or
  \<^verbatim>\<open>exchangeGitHubCode\<close>.
\<close>

record world =
  store :: database
  provider_requests :: "(string \<times> string) list"

text \<open>
  \<^verbatim>\<open>initializeOAuth\<close> loads the configuration and registers the passport strategies;
  when the configuration is missing it throws the \<^verbatim>\<open>PROVIDER_ERROR\<close> below.
\<close>

definition initializeOAuth :: "oauth_env \<Rightarrow> AuthServiceImpl \<Rightarrow> thrown + AuthServiceImpl" where
  "initializeOAuth env this =
     (if config_present env then Inr (this\<lparr>isInitialized := True\<rparr>)
      else Inl (AppErr (createOAuthError PROVIDER_ERROR
                  ''Failed to initialize OAuth2 configuration'' 500)))"

definition ensureInitialized :: "AuthServiceImpl \<Rightarrow> thrown + unit" where
  "ensureInitialized this =
     (if \<not> isInitialized this
      then Inl (AppErr (createOAuthError PROVIDER_ERROR
                  ''OAuth service not initialized. Call initializeOAuth() first.'' 500))
      else Inr ())"

definition exchangeCodeForProfile ::
  "oauth_env \<Rightarrow> string \<Rightarrow> string \<Rightarrow> world \<Rightarrow> (thrown + UserProfile) \<times> world" where
  "exchangeCodeForProfile env provider code w =
     (let token_error =
            AppErr (createOAuthError TOKEN_ERROR
                      (''Failed to exchange authorization code for '' @ provider) 500)
      in if \<not> config_present env then (Inl token_error, w)
         else if provider = ''microsoft'' \<or> provider = ''github''
         then (let w' = w\<lparr>provider_requests := provider_requests w @ [(provider, code)]\<rparr>
               in case provider_reply env provider code of
                    Inl m \<Rightarrow> (Inl token_error, w')
                  | Inr profile \<Rightarrow> (Inr profile, w'))
         else (Inl token_error, w))"

text \<open>
  The platform values of one upsert: a uuid and clock readings for each of the
  \<^verbatim>\<open>UserService\<close> calls that \<^verbatim>\<open>findOrCreateUser\<close> can make.
\<close>

record upsert_env =
  find_uuid :: string
  lookup_uuid :: string
  new_uuid :: string
  created_now :: int
  updated_now :: int
  update_uuid :: string
  update_now :: int

definition findOrCreateUser ::
  "upsert_env \<Rightarrow> UserProfile \<Rightarrow> database \<Rightarrow> (thrown + User) \<times> database" where
  "findOrCreateUser ue profile db =
     (let profile_error =
            AppErr (createOAuthError PROFILE_ERROR ''Failed to process user profile'' 500)
      in case findByProviderId (find_uuid ue) (prof_id profile) (prof_provider profile) db of
           Inl e \<Rightarrow> (Inl profile_error, db)
         | Inr None \<Rightarrow>
             (case createUser (lookup_uuid ue) (new_uuid ue) (created_now ue) (updated_now ue)
                     profile db of
                (Inl e, db') \<Rightarrow> (Inl profile_error, db')
              | (Inr user, db') \<Rightarrow> (Inr user, db'))
         | Inr (Some user) \<Rightarrow>
             if user_username user \<noteq> prof_username profile \<or> user_email user \<noteq> prof_email profile
             then (case updateUser (update_uuid ue) (update_now ue) (user_id user)
                          \<lparr>part_id = None, part_username = Some (prof_username profile),
                           part_email = Some (prof_email profile), part_provider = None\<rparr> db of
                     (Inl e, db') \<Rightarrow> (Inl profile_error, db')
                   | (Inr updated, db') \<Rightarrow> (Inr updated, db'))
             else (Inr user, db))"

text \<open>
  \<^verbatim>\<open>handleMicrosoftCallback\<close> and \<^verbatim>\<open>handleGitHubCallback\<close> are the same text but for the
  provider name (\<^verbatim>\<open>'microsoft'\<close>, \<^verbatim>\<open>'github'\<close>) and its spelling in the first message
  (\<^verbatim>\<open>Microsoft\<close>, \<^verbatim>\<open>GitHub\<close>): \<open>handleCallback_try\<close> is their \<^verbatim>\<open>try\<close> block, and the
  handler passes whatever was thrown to \<^verbatim>\<open>handleOAuthError\<close>.
\<close>

definition handleCallback_try ::
  "string \<Rightarrow> string \<Rightarrow> AuthServiceImpl \<Rightarrow> oauth_env \<Rightarrow> upsert_env \<Rightarrow> string \<Rightarrow> string option
   \<Rightarrow> string option \<Rightarrow> world \<Rightarrow> (thrown + UserProfile) \<times> world" where
  "handleCallback_try provider title this env ue code state sessionState w =
     (case ensureInitialized this of
        Inl e \<Rightarrow> (Inl e, w)
      | Inr u \<Rightarrow>
          if code = []
          then (Inl (AppErr (createOAuthError CALLBACK_ERROR
                      (''Authorization code is required for '' @ title @ '' OAuth callback'')
                      400)), w)
          else if truthy state \<and> truthy sessionState \<and> \<not> validateOAuthState state sessionState
          then (Inl (AppErr (createOAuthError INVALID_STATE
                      ''Invalid state parameter - possible CSRF attack'' 400)), w)
          else (case exchangeCodeForProfile env provider code w of
                  (Inl e, w') \<Rightarrow> (Inl e, w')
                | (Inr profile, w') \<Rightarrow>
                    (case findOrCreateUser ue profile (store w') of
                       (Inl e, db') \<Rightarrow> (Inl e, w'\<lparr>store := db'\<rparr>)
                     | (Inr user, db') \<Rightarrow>
                         (Inr \<lparr>prof_id = user_id user, prof_username = user_username user,
                               prof_email = user_email user, prof_provider = provider\<rparr>,
                          w'\<lparr>store := db'\<rparr>))))"

definition handleCallback ::
  "string \<Rightarrow> string \<Rightarrow> AuthServiceImpl \<Rightarrow> oauth_env \<Rightarrow> upsert_env \<Rightarrow> string \<Rightarrow> string option
   \<Rightarrow> string option \<Rightarrow> world \<Rightarrow> (AppError + UserProfile) \<times> world" where
  "handleCallback provider title this env ue code state sessionState w =
     (case handleCallback_try provider title this env ue code state sessionState w of
        (Inl e, w') \<Rightarrow> (Inl (handleOAuthError e provider), w')
      | (Inr profile, w') \<Rightarrow> (Inr profile, w'))"

definition handleMicrosoftCallback ::
  "AuthServiceImpl \<Rightarrow> oauth_env \<Rightarrow> upsert_env \<Rightarrow> string \<Rightarrow> string option \<Rightarrow> string option
   \<Rightarrow> world \<Rightarrow> (AppError + UserProfile) \<times> world" where
  "handleMicrosoftCallback = handleCallback ''microsoft'' ''Microsoft''"

definition handleGitHubCallback ::
  "AuthServiceImpl \<Rightarrow> oauth_env \<Rightarrow> upsert_env \<Rightarrow> string \<Rightarrow> string option \<Rightarrow> string option
   \<Rightarrow> world \<Rightarrow> (AppError + UserProfile) \<times> world" where
  "handleGitHubCallback = handleCallback ''github'' ''GitHub''"

text \<open>
  The session operations call the \<^verbatim>\<open>SessionManager\<close> and the \<^verbatim>\<open>UserService\<close> that the
  constructor was given; here the methods they call are arguments (\<open>sm_create\<close>,
  \<open>sm_validate\<close>, \<open>sm_destroy\<close>, \<open>us_findById\<close>), over any state \<open>'w\<close>.
  \<^verbatim>\<open>createSession\<close> calls \<^verbatim>\<open>this.sessionManager.create(userId)\<close>, without a duration.
\<close>

definition auth_failed :: "string \<Rightarrow> AppError" where
  "auth_failed msg = \<lparr>etype = App AUTHENTICATION_FAILED, message = msg, statusCode = 500\<rparr>"

definition createSession ::
  "AuthServiceImpl \<Rightarrow> (string \<Rightarrow> 'w \<Rightarrow> (thrown + Session) \<times> 'w) \<Rightarrow> string \<Rightarrow> 'w
   \<Rightarrow> (thrown + string) \<times> 'w" where
  "createSession this sm_create userId w =
     (if userId = [] \<or> length (trim userId) = 0
      then (Inl (rethrow_or (AppErr (validation_error ''User ID is required to create session''))
                   (auth_failed ''Failed to create authentication session'')), w)
      else (case sm_create userId w of
              (Inl e, w') \<Rightarrow>
                (Inl (rethrow_or e (auth_failed ''Failed to create authentication session'')), w')
            | (Inr session, w') \<Rightarrow> (Inr (sess_id session), w')))"

definition validateSession ::
  "AuthServiceImpl \<Rightarrow> (string \<Rightarrow> 'w \<Rightarrow> (thrown + Session option) \<times> 'w)
   \<Rightarrow> (string \<Rightarrow> 'w \<Rightarrow> thrown + User option) \<Rightarrow> (string \<Rightarrow> 'w \<Rightarrow> (thrown + unit) \<times> 'w)
   \<Rightarrow> string \<Rightarrow> 'w \<Rightarrow> User option \<times> 'w" where
  "validateSession this sm_validate us_findById sm_destroy sessionId w =
     (if sessionId = [] \<or> length (trim sessionId) = 0 then (None, w)
      else (case sm_validate sessionId w of
              (Inl e, w') \<Rightarrow> (None, w')
            | (Inr None, w') \<Rightarrow> (None, w')
            | (Inr (Some session), w') \<Rightarrow>
                (case us_findById (sess_userId session) w' of
                   Inl e \<Rightarrow> (None, w')
                 | Inr (Some user) \<Rightarrow> (Some user, w')
                 | Inr None \<Rightarrow>
                     (case sm_destroy sessionId w' of
                        (Inl e, w'') \<Rightarrow> (None, w'')
                      | (Inr u, w'') \<Rightarrow> (None, w'')))))"

definition destroySession ::
  "AuthServiceImpl \<Rightarrow> (string \<Rightarrow> 'w \<Rightarrow> (thrown + unit) \<times> 'w) \<Rightarrow> string \<Rightarrow> 'w
   \<Rightarrow> (thrown + unit) \<times> 'w" where
  "destroySession this sm_destroy sessionId w =
     (if sessionId = [] \<or> length (trim sessionId) = 0
      then (Inl (rethrow_or (AppErr (validation_error ''Session ID is required to destroy session''))
                   (auth_failed ''Failed to destroy session'')), w)
      else (case sm_destroy sessionId w of
              (Inl e, w') \<Rightarrow> (Inl (rethrow_or e (auth_failed ''Failed to destroy session'')), w')
            | (Inr u, w') \<Rightarrow> (Inr (), w')))"

section \<open>Properties of trimming\<close>

lemma trim_Nil [simp]: "trim [] = []"
  by (simp add: trim_def)

lemma trim_prefix: "\<exists>zs. dropWhile is_whitespace s = trim s @ zs"
proof -
  let ?A = "dropWhile is_whitespace s"
  have "rev (takeWhile is_whitespace (rev ?A) @ dropWhile is_whitespace (rev ?A)) = rev (rev ?A)"
    by (simp only: takeWhile_dropWhile_id)
  then have "rev (dropWhile is_whitespace (rev ?A)) @ rev (takeWhile is_whitespace (rev ?A)) = ?A"
    by (simp only: rev_append rev_rev_ident)
  then have "?A = trim s @ rev (takeWhile is_whitespace (rev ?A))"
    by (simp add: trim_def)
  then show ?thesis ..
qed

lemma trim_hd: "trim s \<noteq> [] \<Longrightarrow> \<not> is_whitespace (hd (trim s))"
proof -
  assume ne: "trim s \<noteq> []"
  obtain zs where A: "dropWhile is_whitespace s = trim s @ zs"
    using trim_prefix by blast
  with ne have "dropWhile is_whitespace s \<noteq> []" by simp
  then have "\<not> is_whitespace (hd (dropWhile is_whitespace s))"
    by (rule hd_dropWhile)
  with A ne show ?thesis by simp
qed

lemma dropWhile_trim: "dropWhile is_whitespace (trim s) = trim s"
proof (cases "trim s")
  case Nil
  then show ?thesis by simp
next
  case (Cons c cs)
  with trim_hd [of s] show ?thesis by simp
qed

lemma trim_idem [simp]: "trim (trim s) = trim s"
proof -
  have "trim (trim s) = rev (dropWhile is_whitespace (rev (trim s)))"
    by (simp add: trim_def [of "trim s"] dropWhile_trim)
  also have "rev (trim s) = dropWhile is_whitespace (rev (dropWhile is_whitespace s))"
    by (simp add: trim_def)
  also have "rev (dropWhile is_whitespace (dropWhile is_whitespace (rev (dropWhile is_whitespace s)))) = trim s"
    by (simp add: trim_def dropWhile_idem)
  finally show ?thesis .
qed

lemma dropWhile_none: "list_all (\<lambda>c. \<not> P c) xs \<Longrightarrow> dropWhile P xs = xs"
  by (cases xs) simp_all

lemma trim_no_whitespace: "list_all (\<lambda>c. \<not> is_whitespace c) s \<Longrightarrow> trim s = s"
proof -
  assume h: "list_all (\<lambda>c. \<not> is_whitespace c) s"
  then have "list_all (\<lambda>c. \<not> is_whitespace c) (rev s)"
    by (simp add: list_all_iff)
  then have "dropWhile is_whitespace (rev s) = rev s"
    by (rule dropWhile_none)
  moreover from h have "dropWhile is_whitespace s = s"
    by (rule dropWhile_none)
  ultimately show ?thesis
    by (simp add: trim_def)
qed

lemma sanitizeInput_idem [simp]: "sanitizeInput (sanitizeInput s) = sanitizeInput s"
  by (simp add: sanitizeInput_def)

section \<open>Properties of the state-token validator\<close>

lemma unat_of_char: "unat (of_char a :: 32 word) = of_char a"
proof -
  have "(of_char a :: 32 word) = of_nat (of_char a)"
    by (simp add: of_nat_of_char)
  moreover have "(of_char a :: nat) < 2 ^ 32"
    by (rule less_trans [OF nat_of_char_less_256]) simp
  ultimately show ?thesis
    by (simp add: unat_of_nat)
qed

lemma of_char_word_inj: "(of_char a :: 32 word) = of_char b \<longleftrightarrow> a = b"
  by (metis unat_of_char of_char_eq_iff)

lemma xor_zero_iff: "(a :: 32 word) XOR b = 0 \<longleftrightarrow> a = b"
  by (metis xor.right_neutral xor_self_eq xor.assoc)

lemma validate_loop_exit: "fst (validate_loop r s i res) = max i (length r)"
proof (induction r s i res rule: validate_loop.induct)
  case (1 r s i res)
  then show ?case
    by (subst validate_loop.simps) (simp add: max_def)
qed

lemma validate_loop_acc:
  "snd (validate_loop r s i res) =
     fold (\<lambda>j acc. acc OR (charCodeAt r j XOR charCodeAt s j)) [i..<length r] res"
proof (induction r s i res rule: validate_loop.induct)
  case (1 r s i res)
  show ?case
  proof (cases "i < length r")
    case True
    then show ?thesis
      using 1 by (subst validate_loop.simps) (simp add: upt_conv_Cons)
  next
    case False
    then show ?thesis
      by (subst validate_loop.simps) simp
  qed
qed

lemma fold_or_zero:
  "fold (\<lambda>j acc. acc OR f j) js (res :: 32 word) = 0 \<longleftrightarrow> res = 0 \<and> (\<forall>j\<in>set js. f j = 0)"
  by (induction js arbitrary: res) (auto simp: or_eq_0_iff)

lemma validate_loop_zero_iff:
  assumes len: "length r = length s"
  shows "snd (validate_loop r s 0 0) = 0 \<longleftrightarrow> r = s"
proof -
  have "snd (validate_loop r s 0 0) = 0 \<longleftrightarrow>
        (\<forall>j<length r. charCodeAt r j XOR charCodeAt s j = 0)"
    by (auto simp: validate_loop_acc fold_or_zero)
  also have "\<dots> \<longleftrightarrow> (\<forall>j<length r. r ! j = s ! j)"
    using len by (simp add: xor_zero_iff charCodeAt_def of_char_word_inj)
  also have "\<dots> \<longleftrightarrow> r = s"
    using len by (simp add: list_eq_iff_nth_eq)
  finally show ?thesis .
qed

lemma validateOAuthState_Some:
  "validateOAuthState (Some x) (Some y) \<longleftrightarrow> x \<noteq> [] \<and> x = y"
proof (cases "length x = length y")
  case True
  then show ?thesis
    by (auto simp: validateOAuthState_def truthy_def validate_loop_zero_iff)
next
  case False
  then show ?thesis
    by (auto simp: validateOAuthState_def truthy_def)
qed

lemma validateOAuthState_None [simp]:
  "\<not> validateOAuthState None t" "\<not> validateOAuthState t None"
  by (simp_all add: validateOAuthState_def truthy_def)

text \<open>
  C2. For all request and stored tokens, each possibly \<^verbatim>\<open>undefined\<close>, the validator
  returns true exactly when both are present, non-empty, of equal length and equal at every
  position. So \<open>validate(x, x)\<close> holds for every non-empty \<open>x\<close>, and \<open>validate\<close> is false
  whenever the two tokens differ or one of them is empty or undefined. On the equal-length
  path the loop leaves with \<open>i\<close> at the length of the token and with the OR, over every
  position, of the XOR of the two code units there: it does not stop at the first mismatch.
\<close>

theorem validateOAuthState_correct:
  "(validateOAuthState requestToken storedToken \<longleftrightarrow>
      (\<exists>x y. requestToken = Some x \<and> storedToken = Some y \<and> x \<noteq> [] \<and> y \<noteq> [] \<and>
             length x = length y \<and> (\<forall>i<length x. x ! i = y ! i)))
   \<and> (x \<noteq> [] \<longrightarrow> validateOAuthState (Some x) (Some x))
   \<and> (requestToken \<noteq> storedToken \<or> requestToken = None \<or> requestToken = Some [] \<or>
        storedToken = None \<or> storedToken = Some []
        \<longrightarrow> \<not> validateOAuthState requestToken storedToken)
   \<and> (length x = length y \<longrightarrow>
        validate_loop x y 0 0 =
          (length x, fold (\<lambda>i acc. acc OR (charCodeAt x i XOR charCodeAt y i)) [0..<length x] 0))"
proof (intro conjI impI)
  show "validateOAuthState requestToken storedToken \<longleftrightarrow>
      (\<exists>x y. requestToken = Some x \<and> storedToken = Some y \<and> x \<noteq> [] \<and> y \<noteq> [] \<and>
             length x = length y \<and> (\<forall>i<length x. x ! i = y ! i))"
  proof (cases requestToken)
    case None
    then show ?thesis by simp
  next
    case (Some a)
    show ?thesis
    proof (cases storedToken)
      case None
      then show ?thesis by simp
    next
      case (Some b)
      have "a = b \<longleftrightarrow> length a = length b \<and> (\<forall>i<length a. a ! i = b ! i)"
        by (rule list_eq_iff_nth_eq)
      then have "(a \<noteq> [] \<and> a = b) \<longleftrightarrow>
            (a \<noteq> [] \<and> b \<noteq> [] \<and> length a = length b \<and> (\<forall>i<length a. a ! i = b ! i))"
        by blast
      then show ?thesis
        using \<open>requestToken = Some a\<close> Some by (simp add: validateOAuthState_Some)
    qed
  qed
next
  assume "x \<noteq> []"
  then show "validateOAuthState (Some x) (Some x)"
    by (simp add: validateOAuthState_Some)
next
  assume h: "requestToken \<noteq> storedToken \<or> requestToken = None \<or> requestToken = Some [] \<or>
        storedToken = None \<or> storedToken = Some []"
  show "\<not> validateOAuthState requestToken storedToken"
  proof (cases requestToken)
    case None
    then show ?thesis by simp
  next
    case (Some a)
    show ?thesis
    proof (cases storedToken)
      case None
      then show ?thesis by simp
    next
      case (Some b)
      with h \<open>requestToken = Some a\<close> show ?thesis
        by (auto simp: validateOAuthState_Some)
    qed
  qed
next
  assume "length x = length y"
  show "validate_loop x y 0 0 =
          (length x, fold (\<lambda>i acc. acc OR (charCodeAt x i XOR charCodeAt y i)) [0..<length x] 0)"
    using validate_loop_exit [of x y 0 0] validate_loop_acc [of x y 0 0]
    by (simp add: prod_eq_iff)
qed

theorem validateOAuthState_correct_witness:
  "validateOAuthState (Some ''a1f'') (Some ''a1f'')
   \<and> \<not> validateOAuthState (Some ''a1f'') (Some ''a2f'')
   \<and> \<not> validateOAuthState (Some ''a1f'') (Some ''a1'')
   \<and> \<not> validateOAuthState (Some ''a1f'') None
   \<and> validate_loop ''a1f'' ''a2f'' 0 0 = (3, 3)"
proof -
  have eq: "validateOAuthState (Some ''a1f'') (Some ''a1f'')"
    using validateOAuthState_correct [of "Some ''a1f''" "Some ''a1f''" "''a1f''" "''a1f''"]
    by simp
  have ne: "\<not> validateOAuthState (Some ''a1f'') (Some ''a2f'')"
    using validateOAuthState_correct [of "Some ''a1f''" "Some ''a2f''" "''a1f''" "''a2f''"]
    by (simp add: All_less_Suc)
  have len: "\<not> validateOAuthState (Some ''a1f'') (Some ''a1'')"
    using validateOAuthState_correct [of "Some ''a1f''" "Some ''a1''" "''a1f''" "''a1''"]
    by simp
  have und: "\<not> validateOAuthState (Some ''a1f'') None"
    using validateOAuthState_correct [of "Some ''a1f''" None "''a1f''" "''a1f''"]
    by simp
  have loop: "validate_loop ''a1f'' ''a2f'' 0 0 = (3, 3)"
    using validateOAuthState_correct [of "Some ''a1f''" "Some ''a2f''" "''a1f''" "''a2f''"]
    by (simp add: charCodeAt_def)
  from eq ne len und loop show ?thesis by blast
qed

section \<open>The callback handlers\<close>

text \<open>What \<^verbatim>\<open>handleOAuthError\<close> makes of the errors that the callback handlers throw.\<close>

lemma handleOAuthError_not_initialized:
  "handleOAuthError (AppErr (createOAuthError PROVIDER_ERROR
       ''OAuth service not initialized. Call initializeOAuth() first.'' 500)) provider
   = createOAuthError CALLBACK_ERROR (''Authentication with '' @ provider @ '' failed. Please try again.'') 500"
  by (simp add: handleOAuthError_def createOAuthError_def)

lemma handleOAuthError_code_required_ms:
  "handleOAuthError (AppErr (createOAuthError CALLBACK_ERROR
       (''Authorization code is required for '' @ ''Microsoft'' @ '' OAuth callback'') 400)) provider
   = createOAuthError CALLBACK_ERROR (''Authentication with '' @ provider @ '' failed. Please try again.'') 500"
  by (simp add: handleOAuthError_def createOAuthError_def)

lemma handleOAuthError_code_required_gh:
  "handleOAuthError (AppErr (createOAuthError CALLBACK_ERROR
       (''Authorization code is required for '' @ ''GitHub'' @ '' OAuth callback'') 400)) provider
   = createOAuthError CALLBACK_ERROR (''Authentication with '' @ provider @ '' failed. Please try again.'') 500"
  by (simp add: handleOAuthError_def createOAuthError_def)

lemma handleOAuthError_invalid_state:
  "handleOAuthError (AppErr (createOAuthError INVALID_STATE
       ''Invalid state parameter - possible CSRF attack'' 400)) provider
   = createOAuthError INVALID_STATE ''Authentication request validation failed. Please try again.'' 400"
  by (simp add: handleOAuthError_def createOAuthError_def)

lemma handleCallback_uninitialized:
  "\<not> isInitialized this \<Longrightarrow>
   handleCallback provider title this env ue code state sessionState w =
     (Inl (createOAuthError CALLBACK_ERROR
             (''Authentication with '' @ provider @ '' failed. Please try again.'') 500), w)"
  by (simp add: handleCallback_def handleCallback_try_def ensureInitialized_def
      handleOAuthError_not_initialized)

lemma handleCallback_empty_code:
  assumes "title = ''Microsoft'' \<or> title = ''GitHub''"
  shows "handleCallback provider title this env ue [] state sessionState w =
     (Inl (createOAuthError CALLBACK_ERROR
             (''Authentication with '' @ provider @ '' failed. Please try again.'') 500), w)"
proof (cases "isInitialized this")
  case False
  then show ?thesis by (rule handleCallback_uninitialized)
next
  case True
  from assms show ?thesis
  proof
    assume "title = ''Microsoft''"
    with True show ?thesis
      using handleOAuthError_code_required_ms [of provider]
      by (simp add: handleCallback_def handleCallback_try_def ensureInitialized_def)
  next
    assume "title = ''GitHub''"
    with True show ?thesis
      using handleOAuthError_code_required_gh [of provider]
      by (simp add: handleCallback_def handleCallback_try_def ensureInitialized_def)
  qed
qed

lemma handleCallback_state_mismatch:
  assumes "isInitialized this" "code \<noteq> []"
    and "truthy state" "truthy sessionState" "\<not> validateOAuthState state sessionState"
  shows "handleCallback provider title this env ue code state sessionState w =
     (Inl (createOAuthError INVALID_STATE
             ''Authentication request validation failed. Please try again.'' 400), w)"
  using assms
  by (simp add: handleCallback_def handleCallback_try_def ensureInitialized_def
      handleOAuthError_invalid_state)

lemma handleCallback_state_skipped:
  assumes "\<not> truthy state \<or> \<not> truthy sessionState"
  shows "handleCallback provider title this env ue code state sessionState w =
         handleCallback provider title this env ue code None None w"
  using assms
  by (auto simp: handleCallback_def handleCallback_try_def truthy_def)

lemma exchange_requests:
  assumes "config_present env" "provider = ''microsoft'' \<or> provider = ''github''"
  shows "provider_requests (snd (exchangeCodeForProfile env provider code w)) =
           provider_requests w @ [(provider, code)]"
  using assms
  by (auto simp: exchangeCodeForProfile_def Let_def split: sum.splits)

lemma handleCallback_requests:
  assumes "isInitialized this" "code \<noteq> []"
    and "\<not> (truthy state \<and> truthy sessionState \<and> \<not> validateOAuthState state sessionState)"
  shows "provider_requests (snd (handleCallback provider title this env ue code state sessionState w)) =
         provider_requests (snd (exchangeCodeForProfile env provider code w))"
  using assms
  by (auto simp: handleCallback_def handleCallback_try_def ensureInitialized_def
      split: sum.splits prod.splits)

text \<open>
  C1. A callback (Microsoft or GitHub) on an initialized service with a non-empty
  authorization code. When the request state and the stored state are both present (a
  non-empty string, the test \<^verbatim>\<open>state && sessionState\<close>) and \<^verbatim>\<open>validateOAuthState\<close> rejects
  them, the call fails with the \<^verbatim>\<open>INVALID_STATE\<close> error of status 400 and leaves the state
  untouched: nothing is sent to the provider. When either of them is absent the check is
  skipped: the call is the one with no state at all, and it goes on to the token exchange,
  where, the configuration being present, exactly one request for this code goes to the
  provider.
\<close>

theorem callback_state_validation:
  assumes "isInitialized this" and "code \<noteq> []"
  shows
   "(truthy state \<and> truthy sessionState \<and> \<not> validateOAuthState state sessionState \<longrightarrow>
       handleMicrosoftCallback this env ue code state sessionState w =
         (Inl (createOAuthError INVALID_STATE
                 ''Authentication request validation failed. Please try again.'' 400), w)
     \<and> handleGitHubCallback this env ue code state sessionState w =
         (Inl (createOAuthError INVALID_STATE
                 ''Authentication request validation failed. Please try again.'' 400), w))
    \<and> (\<not> truthy state \<or> \<not> truthy sessionState \<longrightarrow>
         handleMicrosoftCallback this env ue code state sessionState w =
           handleMicrosoftCallback this env ue code None None w
       \<and> handleGitHubCallback this env ue code state sessionState w =
           handleGitHubCallback this env ue code None None w
       \<and> provider_requests (snd (handleMicrosoftCallback this env ue code state sessionState w)) =
           provider_requests (snd (exchangeCodeForProfile env ''microsoft'' code w))
       \<and> provider_requests (snd (handleGitHubCallback this env ue code state sessionState w)) =
           provider_requests (snd (exchangeCodeForProfile env ''github'' code w))
       \<and> (config_present env \<longrightarrow>
            provider_requests (snd (handleMicrosoftCallback this env ue code state sessionState w)) =
              provider_requests w @ [(''microsoft'', code)]
          \<and> provider_requests (snd (handleGitHubCallback this env ue code state sessionState w)) =
              provider_requests w @ [(''github'', code)]))"
proof (intro conjI impI)
  assume m: "truthy state \<and> truthy sessionState \<and> \<not> validateOAuthState state sessionState"
  with assms show "handleMicrosoftCallback this env ue code state sessionState w =
         (Inl (createOAuthError INVALID_STATE
                 ''Authentication request validation failed. Please try again.'' 400), w)"
    unfolding handleMicrosoftCallback_def by (intro handleCallback_state_mismatch) simp_all
  from m assms show "handleGitHubCallback this env ue code state sessionState w =
         (Inl (createOAuthError INVALID_STATE
                 ''Authentication request validation failed. Please try again.'' 400), w)"
    unfolding handleGitHubCallback_def by (intro handleCallback_state_mismatch) simp_all
next
  assume a: "\<not> truthy state \<or> \<not> truthy sessionState"
  then show "handleMicrosoftCallback this env ue code state sessionState w =
           handleMicrosoftCallback this env ue code None None w"
    unfolding handleMicrosoftCallback_def by (rule handleCallback_state_skipped)
  from a show "handleGitHubCallback this env ue code state sessionState w =
           handleGitHubCallback this env ue code None None w"
    unfolding handleGitHubCallback_def by (rule handleCallback_state_skipped)
  from a have skip: "\<not> (truthy state \<and> truthy sessionState \<and> \<not> validateOAuthState state sessionState)"
    by blast
  show ms: "provider_requests (snd (handleMicrosoftCallback this env ue code state sessionState w)) =
           provider_requests (snd (exchangeCodeForProfile env ''microsoft'' code w))"
    unfolding handleMicrosoftCallback_def
    by (rule handleCallback_requests [OF assms skip])
  show gh: "provider_requests (snd (handleGitHubCallback this env ue code state sessionState w)) =
           provider_requests (snd (exchangeCodeForProfile env ''github'' code w))"
    unfolding handleGitHubCallback_def
    by (rule handleCallback_requests [OF assms skip])
  assume c: "config_present env"
  show "provider_requests (snd (handleMicrosoftCallback this env ue code state sessionState w)) =
              provider_requests w @ [(''microsoft'', code)]"
    using ms c by (simp add: exchange_requests)
  show "provider_requests (snd (handleGitHubCallback this env ue code state sessionState w)) =
              provider_requests w @ [(''github'', code)]"
    using gh c by (simp add: exchange_requests)
qed

theorem callback_state_validation_witness:
  "handleMicrosoftCallback \<lparr>isInitialized = True\<rparr>
      \<lparr>config_present = True, provider_reply = (\<lambda>p c. Inl ''invalid_grant'')\<rparr>
      \<lparr>find_uuid = ''u1'', lookup_uuid = ''u2'', new_uuid = ''u3'', created_now = 10,
        updated_now = 10, update_uuid = ''u4'', update_now = 11\<rparr>
      ''code-1'' (Some ''state-a'') (Some ''state-b'')
      \<lparr>store = \<lparr>db_open = True, users = [], sessions = []\<rparr>, provider_requests = []\<rparr>
    = (Inl (createOAuthError INVALID_STATE
              ''Authentication request validation failed. Please try again.'' 400),
       \<lparr>store = \<lparr>db_open = True, users = [], sessions = []\<rparr>, provider_requests = []\<rparr>)
   \<and> provider_requests (snd (handleGitHubCallback \<lparr>isInitialized = True\<rparr>
      \<lparr>config_present = True, provider_reply = (\<lambda>p c. Inl ''invalid_grant'')\<rparr>
      \<lparr>find_uuid = ''u1'', lookup_uuid = ''u2'', new_uuid = ''u3'', created_now = 10,
        updated_now = 10, update_uuid = ''u4'', update_now = 11\<rparr>
      ''code-1'' None (Some ''state-b'')
      \<lparr>store = \<lparr>db_open = True, users = [], sessions = []\<rparr>, provider_requests = []\<rparr>))
    = [(''github'', ''code-1'')]"
proof -
  have init: "isInitialized \<lparr>isInitialized = True\<rparr>"
    by simp
  have code: "''code-1'' \<noteq> []"
    by simp
  have mismatch: "truthy (Some ''state-a'') \<and> truthy (Some ''state-b'') \<and>
      \<not> validateOAuthState (Some ''state-a'') (Some ''state-b'')"
    by (simp add: validateOAuthState_Some truthy_def)
  have absent: "\<not> truthy None \<or> \<not> truthy (Some ''state-b'')"
    by (simp add: truthy_def)
  have cfg: "config_present \<lparr>config_present = True, provider_reply = (\<lambda>p c. Inl ''invalid_grant'')\<rparr>"
    by simp
  note rejected =
    callback_state_validation [OF init code, THEN conjunct1, THEN mp, OF mismatch, THEN conjunct1]
  note skipped =
    callback_state_validation [OF init code, THEN conjunct2, THEN mp, OF absent,
      THEN conjunct2, THEN conjunct2, THEN conjunct2, THEN conjunct2, THEN mp, OF cfg,
      THEN conjunct2]
  show ?thesis
    using rejected skipped by simp
qed

text \<open>
  C3 (as the code has it). A callback with an empty authorization code fails before anything
  is sent to a provider and without touching the stores, whether or not the service is
  initialized. The error it throws inside the \<^verbatim>\<open>try\<close> block on an initialized service is
  the \<^verbatim>\<open>CALLBACK_ERROR\<close> of status 400; the handler passes it to \<^verbatim>\<open>handleOAuthError\<close>,
  whose generic branch answers with a \<^verbatim>\<open>CALLBACK_ERROR\<close> of status 500, and that is what
  the caller gets.
\<close>

theorem callback_empty_code:
  "handleMicrosoftCallback this env ue [] state sessionState w =
     (Inl (createOAuthError CALLBACK_ERROR
             ''Authentication with microsoft failed. Please try again.'' 500), w)
   \<and> handleGitHubCallback this env ue [] state sessionState w =
     (Inl (createOAuthError CALLBACK_ERROR
             ''Authentication with github failed. Please try again.'' 500), w)
   \<and> (isInitialized this \<longrightarrow>
        handleCallback_try ''microsoft'' ''Microsoft'' this env ue [] state sessionState w =
          (Inl (AppErr (createOAuthError CALLBACK_ERROR
                  ''Authorization code is required for Microsoft OAuth callback'' 400)), w)
      \<and> handleCallback_try ''github'' ''GitHub'' this env ue [] state sessionState w =
          (Inl (AppErr (createOAuthError CALLBACK_ERROR
                  ''Authorization code is required for GitHub OAuth callback'' 400)), w))"
proof (intro conjI impI)
  show "handleMicrosoftCallback this env ue [] state sessionState w =
     (Inl (createOAuthError CALLBACK_ERROR
             ''Authentication with microsoft failed. Please try again.'' 500), w)"
    using handleCallback_empty_code [of "''Microsoft''" "''microsoft''" this env ue state sessionState w]
    by (simp add: handleMicrosoftCallback_def)
  show "handleGitHubCallback this env ue [] state sessionState w =
     (Inl (createOAuthError CALLBACK_ERROR
             ''Authentication with github failed. Please try again.'' 500), w)"
    using handleCallback_empty_code [of "''GitHub''" "''github''" this env ue state sessionState w]
    by (simp add: handleGitHubCallback_def)
next
  assume "isInitialized this"
  then show "handleCallback_try ''microsoft'' ''Microsoft'' this env ue [] state sessionState w =
          (Inl (AppErr (createOAuthError CALLBACK_ERROR
                  ''Authorization code is required for Microsoft OAuth callback'' 400)), w)"
    by (simp add: handleCallback_try_def ensureInitialized_def)
next
  assume "isInitialized this"
  then show "handleCallback_try ''github'' ''GitHub'' this env ue [] state sessionState w =
          (Inl (AppErr (createOAuthError CALLBACK_ERROR
                  ''Authorization code is required for GitHub OAuth callback'' 400)), w)"
    by (simp add: handleCallback_try_def ensureInitialized_def)
qed

theorem callback_empty_code_witness:
  "handleCallback_try ''microsoft'' ''Microsoft'' \<lparr>isInitialized = True\<rparr>
      \<lparr>config_present = True, provider_reply = (\<lambda>p c. Inl ''invalid_grant'')\<rparr>
      \<lparr>find_uuid = ''u1'', lookup_uuid = ''u2'', new_uuid = ''u3'', created_now = 10,
        updated_now = 10, update_uuid = ''u4'', update_now = 11\<rparr>
      [] None None
      \<lparr>store = \<lparr>db_open = True, users = [], sessions = []\<rparr>, provider_requests = []\<rparr>
    = (Inl (AppErr (createOAuthError CALLBACK_ERROR
                  ''Authorization code is required for Microsoft OAuth callback'' 400)),
       \<lparr>store = \<lparr>db_open = True, users = [], sessions = []\<rparr>, provider_requests = []\<rparr>)"
proof -
  have init: "isInitialized \<lparr>isInitialized = True\<rparr>"
    by simp
  show ?thesis
    by (rule callback_empty_code [THEN conjunct2, THEN conjunct2, THEN mp, OF init, THEN conjunct1])
qed

theorem callback_empty_code_counterexample:
  "fst (handleMicrosoftCallback \<lparr>isInitialized = True\<rparr>
      \<lparr>config_present = True, provider_reply = (\<lambda>p c. Inl ''invalid_grant'')\<rparr>
      \<lparr>find_uuid = ''u1'', lookup_uuid = ''u2'', new_uuid = ''u3'', created_now = 10,
        updated_now = 10, update_uuid = ''u4'', update_now = 11\<rparr>
      [] None None
      \<lparr>store = \<lparr>db_open = True, users = [], sessions = []\<rparr>, provider_requests = []\<rparr>)
    = Inl \<lparr>etype = OAuth CALLBACK_ERROR,
           message = ''Authentication with microsoft failed. Please try again.'',
           statusCode = 500\<rparr>
   \<and> \<not> (\<exists>e. fst (handleMicrosoftCallback \<lparr>isInitialized = True\<rparr>
      \<lparr>config_present = True, provider_reply = (\<lambda>p c. Inl ''invalid_grant'')\<rparr>
      \<lparr>find_uuid = ''u1'', lookup_uuid = ''u2'', new_uuid = ''u3'', created_now = 10,
        updated_now = 10, update_uuid = ''u4'', update_now = 11\<rparr>
      [] None None
      \<lparr>store = \<lparr>db_open = True, users = [], sessions = []\<rparr>, provider_requests = []\<rparr>) = Inl e
        \<and> statusCode e = 400)"
  using handleCallback_empty_code [of "''Microsoft''" "''microsoft''"]
  by (simp add: handleMicrosoftCallback_def createOAuthError_def)

section \<open>Calls before initialization\<close>

lemma trim_u1: "trim ''u1'' = ''u1''"
  by (simp add: trim_def is_whitespace_def)

lemma create_eval:
  "SessionManager_create
     ''9f86d081884c7d659a2feaa0c55ad015a3bf4f1b2b0b822cd15d6c15b0f00a08'' ''uuid-1''
     1000 1000 1000 ''u1'' None
     \<lparr>db_open = True,
      users = [\<lparr>row_id = ''u1'', row_username = ''alice'', row_email = ''a@x.com'',
                row_provider = ''github'', row_provider_id = ''gh-1'',
                row_created_at = 0, row_updated_at = 0\<rparr>],
      sessions = []\<rparr>
   = (Inr \<lparr>sess_id = ''9f86d081884c7d659a2feaa0c55ad015a3bf4f1b2b0b822cd15d6c15b0f00a08'',
           sess_userId = ''u1'', sess_createdAt = Some 1000, sess_expiresAt = Some 86401000\<rparr>,
      \<lparr>db_open = True,
      users = [\<lparr>row_id = ''u1'', row_username = ''alice'', row_email = ''a@x.com'',
                row_provider = ''github'', row_provider_id = ''gh-1'',
                row_created_at = 0, row_updated_at = 0\<rparr>],
      sessions = [\<lparr>srow_id = ''9f86d081884c7d659a2feaa0c55ad015a3bf4f1b2b0b822cd15d6c15b0f00a08'',
                   srow_user_id = ''u1'', srow_created_at = 1000, srow_expires_at = 86401000\<rparr>]\<rparr>)"
  by (simp add: SessionManager_create_def SessionManager_create_try_def sanitizeInput_def trim_u1
      verifyUserExists_def sql_user_exists_def Session_new_def truthy_def new_Date_def
      Session_validate_def isExpired_def Date_gt_def Session_toDatabaseRow_def
      sql_sessions_insert_def Let_def)

text \<open>
  C9 (as the code has it). Before \<^verbatim>\<open>initializeOAuth\<close>, \<^verbatim>\<open>ensureInitialized\<close> throws the
  \<^verbatim>\<open>PROVIDER_ERROR\<close> of status 500; it is called by the two callback handlers only, whose
  \<^verbatim>\<open>catch\<close> passes the error to \<^verbatim>\<open>handleOAuthError\<close>, so that the caller gets the generic
  \<^verbatim>\<open>CALLBACK_ERROR\<close> of status 500, with nothing sent to a provider and the stores
  untouched. \<^verbatim>\<open>createSession\<close>, \<^verbatim>\<open>validateSession\<close> and \<^verbatim>\<open>destroySession\<close> do not ask
  whether the service is initialized: each gives the same result before and after.
\<close>

theorem uninitialized_operations:
  "\<not> isInitialized this \<longrightarrow>
     ensureInitialized this =
       Inl (AppErr (createOAuthError PROVIDER_ERROR
              ''OAuth service not initialized. Call initializeOAuth() first.'' 500))
   \<and> handleMicrosoftCallback this env ue code state sessionState w =
       (Inl (createOAuthError CALLBACK_ERROR
               ''Authentication with microsoft failed. Please try again.'' 500), w)
   \<and> handleGitHubCallback this env ue code state sessionState w =
       (Inl (createOAuthError CALLBACK_ERROR
               ''Authentication with github failed. Please try again.'' 500), w)
   \<and> createSession this sm_create userId v =
       createSession (this\<lparr>isInitialized := True\<rparr>) sm_create userId v
   \<and> validateSession this sm_validate us_findById sm_destroy sessionId v =
       validateSession (this\<lparr>isInitialized := True\<rparr>) sm_validate us_findById sm_destroy sessionId v
   \<and> destroySession this sm_destroy sessionId v =
       destroySession (this\<lparr>isInitialized := True\<rparr>) sm_destroy sessionId v"
proof (intro impI conjI)
  assume u: "\<not> isInitialized this"
  then show "ensureInitialized this =
       Inl (AppErr (createOAuthError PROVIDER_ERROR
              ''OAuth service not initialized. Call initializeOAuth() first.'' 500))"
    by (simp add: ensureInitialized_def)
  from u show "handleMicrosoftCallback this env ue code state sessionState w =
       (Inl (createOAuthError CALLBACK_ERROR
               ''Authentication with microsoft failed. Please try again.'' 500), w)"
    using handleCallback_uninitialized [of this "''microsoft''"]
    by (simp add: handleMicrosoftCallback_def)
  from u show "handleGitHubCallback this env ue code state sessionState w =
       (Inl (createOAuthError CALLBACK_ERROR
               ''Authentication with github failed. Please try again.'' 500), w)"
    using handleCallback_uninitialized [of this "''github''"]
    by (simp add: handleGitHubCallback_def)
  show "createSession this sm_create userId v =
       createSession (this\<lparr>isInitialized := True\<rparr>) sm_create userId v"
    by (simp add: createSession_def)
  show "validateSession this sm_validate us_findById sm_destroy sessionId v =
       validateSession (this\<lparr>isInitialized := True\<rparr>) sm_validate us_findById sm_destroy sessionId v"
    by (simp add: validateSession_def)
  show "destroySession this sm_destroy sessionId v =
       destroySession (this\<lparr>isInitialized := True\<rparr>) sm_destroy sessionId v"
    by (simp add: destroySession_def)
qed

theorem uninitialized_operations_witness:
  "handleMicrosoftCallback \<lparr>isInitialized = False\<rparr>
      \<lparr>config_present = True, provider_reply = (\<lambda>p c. Inl ''invalid_grant'')\<rparr>
      \<lparr>find_uuid = ''u1'', lookup_uuid = ''u2'', new_uuid = ''u3'', created_now = 10,
        updated_now = 10, update_uuid = ''u4'', update_now = 11\<rparr>
      ''code-1'' None None
      \<lparr>store = \<lparr>db_open = True, users = [], sessions = []\<rparr>, provider_requests = []\<rparr>
    = (Inl (createOAuthError CALLBACK_ERROR
               ''Authentication with microsoft failed. Please try again.'' 500),
       \<lparr>store = \<lparr>db_open = True, users = [], sessions = []\<rparr>, provider_requests = []\<rparr>)"
proof -
  have u: "\<not> isInitialized \<lparr>isInitialized = False\<rparr>"
    by simp
  show ?thesis
    by (rule uninitialized_operations [THEN mp, OF u, THEN conjunct2, THEN conjunct1])
qed

theorem uninitialized_operations_counterexample:
  "fst (handleMicrosoftCallback \<lparr>isInitialized = False\<rparr>
      \<lparr>config_present = True, provider_reply = (\<lambda>p c. Inl ''invalid_grant'')\<rparr>
      \<lparr>find_uuid = ''u1'', lookup_uuid = ''u2'', new_uuid = ''u3'', created_now = 10,
        updated_now = 10, update_uuid = ''u4'', update_now = 11\<rparr>
      ''code-1'' None None
      \<lparr>store = \<lparr>db_open = True, users = [], sessions = []\<rparr>, provider_requests = []\<rparr>)
    = Inl \<lparr>etype = OAuth CALLBACK_ERROR,
           message = ''Authentication with microsoft failed. Please try again.'',
           statusCode = 500\<rparr>
   \<and> fst (createSession \<lparr>isInitialized = False\<rparr>
        (\<lambda>u. SessionManager_create
           ''9f86d081884c7d659a2feaa0c55ad015a3bf4f1b2b0b822cd15d6c15b0f00a08'' ''uuid-1''
           1000 1000 1000 u None)
        ''u1''
        \<lparr>db_open = True,
         users = [\<lparr>row_id = ''u1'', row_username = ''alice'', row_email = ''a@x.com'',
                   row_provider = ''github'', row_provider_id = ''gh-1'',
                   row_created_at = 0, row_updated_at = 0\<rparr>],
         sessions = []\<rparr>)
    = Inr ''9f86d081884c7d659a2feaa0c55ad015a3bf4f1b2b0b822cd15d6c15b0f00a08''"
proof (rule conjI)
  show "fst (handleMicrosoftCallback \<lparr>isInitialized = False\<rparr>
      \<lparr>config_present = True, provider_reply = (\<lambda>p c. Inl ''invalid_grant'')\<rparr>
      \<lparr>find_uuid = ''u1'', lookup_uuid = ''u2'', new_uuid = ''u3'', created_now = 10,
        updated_now = 10, update_uuid = ''u4'', update_now = 11\<rparr>
      ''code-1'' None None
      \<lparr>store = \<lparr>db_open = True, users = [], sessions = []\<rparr>, provider_requests = []\<rparr>)
    = Inl \<lparr>etype = OAuth CALLBACK_ERROR,
           message = ''Authentication with microsoft failed. Please try again.'',
           statusCode = 500\<rparr>"
    using handleCallback_uninitialized [of "\<lparr>isInitialized = False\<rparr>" "''microsoft''"]
    by (simp add: handleMicrosoftCallback_def createOAuthError_def)
  show "fst (createSession \<lparr>isInitialized = False\<rparr>
        (\<lambda>u. SessionManager_create
           ''9f86d081884c7d659a2feaa0c55ad015a3bf4f1b2b0b822cd15d6c15b0f00a08'' ''uuid-1''
           1000 1000 1000 u None)
        ''u1''
        \<lparr>db_open = True,
         users = [\<lparr>row_id = ''u1'', row_username = ''alice'', row_email = ''a@x.com'',
                   row_provider = ''github'', row_provider_id = ''gh-1'',
                   row_created_at = 0, row_updated_at = 0\<rparr>],
         sessions = []\<rparr>)
    = Inr ''9f86d081884c7d659a2feaa0c55ad015a3bf4f1b2b0b822cd15d6c15b0f00a08''"
    by (simp add: createSession_def trim_u1 create_eval)
qed

section \<open>The sweep of expired sessions\<close>

text \<open>
  C7, at a session that expired two hours ago on the same UTC day. \<^verbatim>\<open>create\<close> stored its
  expiry as the text \<^verbatim>\<open>2025-01-01T10:00:00.000Z\<close>; at 12:00:00 UTC of that day the session
  is expired for \<^verbatim>\<open>isExpired\<close>, while \<^verbatim>\<open>datetime('now')\<close> is \<^verbatim>\<open>2025-01-01 12:00:00\<close>, and
  the stored text is not smaller, its eleventh character \<^verbatim>\<open>T\<close> being above the blank. So
  \<^verbatim>\<open>cleanup\<close> removes nothing: it returns 0 and the expired row stays.
\<close>

theorem cleanup_keeps_row_expired_today:
  "isExpired 1735732800000
     (Session_fromDatabaseRow ''uuid-1''
        \<lparr>srow_id = ''9f86d081884c7d659a2feaa0c55ad015a3bf4f1b2b0b822cd15d6c15b0f00a08'',
         srow_user_id = ''u1'', srow_created_at = 1735639200000,
         srow_expires_at = 1735725600000\<rparr>)
   \<and> toISOString 1735725600000 = ''2025-01-01T10:00:00.000Z''
   \<and> sqlite_datetime 1735732800000 = ''2025-01-01 12:00:00''
   \<and> SessionManager_cleanup 1735732800000
       \<lparr>db_open = True,
        users = [\<lparr>row_id = ''u1'', row_username = ''alice'', row_email = ''a@x.com'',
                  row_provider = ''github'', row_provider_id = ''gh-1'',
                  row_created_at = 1735639200000, row_updated_at = 1735639200000\<rparr>],
        sessions = [\<lparr>srow_id = ''9f86d081884c7d659a2feaa0c55ad015a3bf4f1b2b0b822cd15d6c15b0f00a08'',
                     srow_user_id = ''u1'', srow_created_at = 1735639200000,
                     srow_expires_at = 1735725600000\<rparr>]\<rparr>
     = (Inr 0,
        \<lparr>db_open = True,
        users = [\<lparr>row_id = ''u1'', row_username = ''alice'', row_email = ''a@x.com'',
                  row_provider = ''github'', row_provider_id = ''gh-1'',
                  row_created_at = 1735639200000, row_updated_at = 1735639200000\<rparr>],
        sessions = [\<lparr>srow_id = ''9f86d081884c7d659a2feaa0c55ad015a3bf4f1b2b0b822cd15d6c15b0f00a08'',
                     srow_user_id = ''u1'', srow_created_at = 1735639200000,
                     srow_expires_at = 1735725600000\<rparr>]\<rparr>)"
proof -
  have iso: "toISOString 1735725600000 = ''2025-01-01T10:00:00.000Z''"
    by code_simp
  have sql: "sqlite_datetime 1735732800000 = ''2025-01-01 12:00:00''"
    by code_simp
  have expired: "isExpired 1735732800000
     (Session_fromDatabaseRow ''uuid-1''
        \<lparr>srow_id = ''9f86d081884c7d659a2feaa0c55ad015a3bf4f1b2b0b822cd15d6c15b0f00a08'',
         srow_user_id = ''u1'', srow_created_at = 1735639200000,
         srow_expires_at = 1735725600000\<rparr>)"
    by (simp add: isExpired_def Session_fromDatabaseRow_def Session_new_def new_Date_def Date_gt_def)
  have not_less: "\<not> text_less ''2025-01-01T10:00:00.000Z'' ''2025-01-01 12:00:00''"
    by simp
  have kept: "\<not> expires_before_now 1735732800000
        \<lparr>srow_id = ''9f86d081884c7d659a2feaa0c55ad015a3bf4f1b2b0b822cd15d6c15b0f00a08'',
         srow_user_id = ''u1'', srow_created_at = 1735639200000,
         srow_expires_at = 1735725600000\<rparr>"
    using not_less by (simp add: expires_before_now_def iso sql)
  have sweep: "SessionManager_cleanup 1735732800000
       \<lparr>db_open = True,
        users = [\<lparr>row_id = ''u1'', row_username = ''alice'', row_email = ''a@x.com'',
                  row_provider = ''github'', row_provider_id = ''gh-1'',
                  row_created_at = 1735639200000, row_updated_at = 1735639200000\<rparr>],
        sessions = [\<lparr>srow_id = ''9f86d081884c7d659a2feaa0c55ad015a3bf4f1b2b0b822cd15d6c15b0f00a08'',
                     srow_user_id = ''u1'', srow_created_at = 1735639200000,
                     srow_expires_at = 1735725600000\<rparr>]\<rparr>
     = (Inr 0,
        \<lparr>db_open = True,
        users = [\<lparr>row_id = ''u1'', row_username = ''alice'', row_email = ''a@x.com'',
                  row_provider = ''github'', row_provider_id = ''gh-1'',
                  row_created_at = 1735639200000, row_updated_at = 1735639200000\<rparr>],
        sessions = [\<lparr>srow_id = ''9f86d081884c7d659a2feaa0c55ad015a3bf4f1b2b0b822cd15d6c15b0f00a08'',
                     srow_user_id = ''u1'', srow_created_at = 1735639200000,
                     srow_expires_at = 1735725600000\<rparr>]\<rparr>)"
    using kept by (simp add: SessionManager_cleanup_def sql_sessions_delete_expired_def)
  show ?thesis
    by (intro conjI) (rule expired iso sql sweep)+
qed

section \<open>The session store: validate\<close>

lemma find_after_delete:
  "find (\<lambda>r. srow_id r = i) (filter (\<lambda>r. srow_id r \<noteq> i) xs) = None"
  by (simp add: find_None_iff)

lemma validate_empty_id:
  "trim sessionId = [] \<Longrightarrow> SessionManager_validate uuid t1 t2 sessionId db = (None, db)"
  by (simp add: SessionManager_validate_def SessionManager_validate_try_def sanitizeInput_def)

lemma validate_unknown_id:
  "find (\<lambda>r. srow_id r = trim sessionId) (sessions db) = None \<Longrightarrow>
   SessionManager_validate uuid t1 t2 sessionId db = (None, db)"
  by (simp add: SessionManager_validate_def SessionManager_validate_try_def sanitizeInput_def
      sql_sessions_by_id_def Let_def)

lemma validate_expired:
  assumes "db_open db" and "trim sessionId \<noteq> []"
    and found: "find (\<lambda>r. srow_id r = trim sessionId) (sessions db) = Some row"
    and valid: "\<bar>srow_expires_at row\<bar> \<le> 8640000000000000"
    and past: "srow_expires_at row < t1"
  shows "SessionManager_validate uuid t1 t2 sessionId db =
     (None, db\<lparr>sessions := filter (\<lambda>r. srow_id r \<noteq> trim sessionId) (sessions db)\<rparr>)"
proof -
  from found have rid: "srow_id row = trim sessionId"
    by (auto simp: find_Some_iff)
  let ?session = "Session_fromDatabaseRow uuid row"
  have sid: "sess_id ?session = trim sessionId"
    using rid assms(2) by (simp add: Session_fromDatabaseRow_def Session_new_def truthy_def)
  have exp: "isExpired t1 ?session"
    using valid past
    by (simp add: isExpired_def Session_fromDatabaseRow_def Session_new_def new_Date_def Date_gt_def)
  have destroy: "SessionManager_destroy (trim sessionId) db =
      (Inr (), db\<lparr>sessions := filter (\<lambda>r. srow_id r \<noteq> trim sessionId) (sessions db)\<rparr>)"
    using assms(1,2)
    by (simp add: SessionManager_destroy_def sanitizeInput_def sql_sessions_delete_def)
  show ?thesis
    using assms(1,2) found sid exp destroy
    by (simp add: SessionManager_validate_def SessionManager_validate_try_def sanitizeInput_def
        sql_sessions_by_id_def Let_def)
qed

text \<open>
  C6. \<^verbatim>\<open>validate\<close> never throws: whatever its \<^verbatim>\<open>try\<close> block throws, the handler
  returns \<^verbatim>\<open>null\<close>. It returns \<^verbatim>\<open>null\<close>, and leaves the table as it is, for an id that is
  empty after trimming and for an id that no row has. For a row whose expiry is strictly
  before the clock reading it returns \<^verbatim>\<open>null\<close> and deletes the row: no row of that id is
  left in the table, and a later \<^verbatim>\<open>validate\<close> of the same id, at any time, returns
  \<^verbatim>\<open>null\<close> again.
\<close>

theorem session_validate_null:
  "(SessionManager_validate_try uuid t1 t2 sessionId db = (Inl e, db1) \<longrightarrow>
      SessionManager_validate uuid t1 t2 sessionId db = (None, db1))
   \<and> (trim sessionId = [] \<longrightarrow> SessionManager_validate uuid t1 t2 sessionId db = (None, db))
   \<and> (find (\<lambda>r. srow_id r = trim sessionId) (sessions db) = None \<longrightarrow>
        SessionManager_validate uuid t1 t2 sessionId db = (None, db))
   \<and> (db_open db \<and> trim sessionId \<noteq> [] \<and>
       find (\<lambda>r. srow_id r = trim sessionId) (sessions db) = Some row \<and>
       \<bar>srow_expires_at row\<bar> \<le> 8640000000000000 \<and> srow_expires_at row < t1 \<longrightarrow>
        SessionManager_validate uuid t1 t2 sessionId db =
          (None, db\<lparr>sessions := filter (\<lambda>r. srow_id r \<noteq> trim sessionId) (sessions db)\<rparr>)
      \<and> find (\<lambda>r. srow_id r = trim sessionId)
            (sessions (snd (SessionManager_validate uuid t1 t2 sessionId db))) = None
      \<and> SessionManager_validate uuid' t1' t2' sessionId
            (snd (SessionManager_validate uuid t1 t2 sessionId db)) =
          (None, snd (SessionManager_validate uuid t1 t2 sessionId db)))"
proof (intro conjI impI)
  assume "SessionManager_validate_try uuid t1 t2 sessionId db = (Inl e, db1)"
  then show "SessionManager_validate uuid t1 t2 sessionId db = (None, db1)"
    by (simp add: SessionManager_validate_def)
next
  assume "trim sessionId = []"
  then show "SessionManager_validate uuid t1 t2 sessionId db = (None, db)"
    by (rule validate_empty_id)
next
  assume "find (\<lambda>r. srow_id r = trim sessionId) (sessions db) = None"
  then show "SessionManager_validate uuid t1 t2 sessionId db = (None, db)"
    by (rule validate_unknown_id)
next
  assume h: "db_open db \<and> trim sessionId \<noteq> [] \<and>
       find (\<lambda>r. srow_id r = trim sessionId) (sessions db) = Some row \<and>
       \<bar>srow_expires_at row\<bar> \<le> 8640000000000000 \<and> srow_expires_at row < t1"
  then have h1: "db_open db" and h2: "trim sessionId \<noteq> []"
    and h3: "find (\<lambda>r. srow_id r = trim sessionId) (sessions db) = Some row"
    and h4: "\<bar>srow_expires_at row\<bar> \<le> 8640000000000000" and h5: "srow_expires_at row < t1"
    by blast+
  have del: "SessionManager_validate uuid t1 t2 sessionId db =
          (None, db\<lparr>sessions := filter (\<lambda>r. srow_id r \<noteq> trim sessionId) (sessions db)\<rparr>)"
    by (rule validate_expired [OF h1 h2 h3 h4 h5])
  then show "SessionManager_validate uuid t1 t2 sessionId db =
          (None, db\<lparr>sessions := filter (\<lambda>r. srow_id r \<noteq> trim sessionId) (sessions db)\<rparr>)" .
  show gone: "find (\<lambda>r. srow_id r = trim sessionId)
            (sessions (snd (SessionManager_validate uuid t1 t2 sessionId db))) = None"
    by (simp add: del find_after_delete)
  show "SessionManager_validate uuid' t1' t2' sessionId
            (snd (SessionManager_validate uuid t1 t2 sessionId db)) =
          (None, snd (SessionManager_validate uuid t1 t2 sessionId db))"
    using gone by (rule validate_unknown_id)
qed


lemma trim_sid:
  "trim ''9f86d081884c7d659a2feaa0c55ad015a3bf4f1b2b0b822cd15d6c15b0f00a08'' =
     ''9f86d081884c7d659a2feaa0c55ad015a3bf4f1b2b0b822cd15d6c15b0f00a08''"
  by (rule trim_no_whitespace) (simp add: is_whitespace_def)

theorem session_validate_null_witness:
  "SessionManager_validate ''uuid-1'' 1735732800000 1735732800001
     ''9f86d081884c7d659a2feaa0c55ad015a3bf4f1b2b0b822cd15d6c15b0f00a08''
     \<lparr>db_open = True,
      users = [\<lparr>row_id = ''u1'', row_username = ''alice'', row_email = ''a@x.com'',
                row_provider = ''github'', row_provider_id = ''gh-1'',
                row_created_at = 1735639200000, row_updated_at = 1735639200000\<rparr>],
      sessions = [\<lparr>srow_id = ''9f86d081884c7d659a2feaa0c55ad015a3bf4f1b2b0b822cd15d6c15b0f00a08'',
                   srow_user_id = ''u1'', srow_created_at = 1735639200000,
                   srow_expires_at = 1735725600000\<rparr>]\<rparr>
   = (None,
      \<lparr>db_open = True,
       users = [\<lparr>row_id = ''u1'', row_username = ''alice'', row_email = ''a@x.com'',
                 row_provider = ''github'', row_provider_id = ''gh-1'',
                 row_created_at = 1735639200000, row_updated_at = 1735639200000\<rparr>],
       sessions = []\<rparr>)"
proof -
  have hyp: "db_open \<lparr>db_open = True,
      users = [\<lparr>row_id = ''u1'', row_username = ''alice'', row_email = ''a@x.com'',
                row_provider = ''github'', row_provider_id = ''gh-1'',
                row_created_at = 1735639200000, row_updated_at = 1735639200000\<rparr>],
      sessions = [\<lparr>srow_id = ''9f86d081884c7d659a2feaa0c55ad015a3bf4f1b2b0b822cd15d6c15b0f00a08'',
                   srow_user_id = ''u1'', srow_created_at = 1735639200000,
                   srow_expires_at = 1735725600000\<rparr>]\<rparr>
    \<and> trim ''9f86d081884c7d659a2feaa0c55ad015a3bf4f1b2b0b822cd15d6c15b0f00a08'' \<noteq> []
    \<and> find (\<lambda>r. srow_id r = trim ''9f86d081884c7d659a2feaa0c55ad015a3bf4f1b2b0b822cd15d6c15b0f00a08'')
         (sessions \<lparr>db_open = True,
      users = [\<lparr>row_id = ''u1'', row_username = ''alice'', row_email = ''a@x.com'',
                row_provider = ''github'', row_provider_id = ''gh-1'',
                row_created_at = 1735639200000, row_updated_at = 1735639200000\<rparr>],
      sessions = [\<lparr>srow_id = ''9f86d081884c7d659a2feaa0c55ad015a3bf4f1b2b0b822cd15d6c15b0f00a08'',
                   srow_user_id = ''u1'', srow_created_at = 1735639200000,
                   srow_expires_at = 1735725600000\<rparr>]\<rparr>)
       = Some \<lparr>srow_id = ''9f86d081884c7d659a2feaa0c55ad015a3bf4f1b2b0b822cd15d6c15b0f00a08'',
                   srow_user_id = ''u1'', srow_created_at = 1735639200000,
                   srow_expires_at = 1735725600000\<rparr>
    \<and> \<bar>srow_expires_at \<lparr>srow_id = ''9f86d081884c7d659a2feaa0c55ad015a3bf4f1b2b0b822cd15d6c15b0f00a08'',
                   srow_user_id = ''u1'', srow_created_at = 1735639200000,
                   srow_expires_at = 1735725600000\<rparr>\<bar> \<le> 8640000000000000
    \<and> srow_expires_at \<lparr>srow_id = ''9f86d081884c7d659a2feaa0c55ad015a3bf4f1b2b0b822cd15d6c15b0f00a08'',
                   srow_user_id = ''u1'', srow_created_at = 1735639200000,
                   srow_expires_at = 1735725600000\<rparr> < 1735732800000"
    by (simp add: trim_sid)
  note deleted =
    session_validate_null [THEN conjunct2, THEN conjunct2, THEN conjunct2, THEN mp, OF hyp,
      THEN conjunct1]
  show ?thesis
    using deleted [of "''uuid-1''" 1735732800001] by (simp add: trim_sid)
qed

section \<open>The session operations of the orchestrator\<close>

lemma isAppError_rethrow_or [simp]: "isAppError (rethrow_or e wrapped)"
  by (simp add: rethrow_or_def)

lemma rethrow_or_AppErr [simp]: "rethrow_or (AppErr e) wrapped = AppErr e"
  by (simp add: rethrow_or_def)

lemma rethrow_or_JsError [simp]: "rethrow_or (JsError m) wrapped = AppErr wrapped"
  by (simp add: rethrow_or_def)

lemma create_no_user:
  assumes "trim userId \<noteq> []"
    and "\<not> list_ex (\<lambda>r. row_id r = trim userId) (users db)"
  shows "SessionManager_create sid uuid t1 t2 t3 userId durationMs db =
     (Inl (AppErr \<lparr>etype = App USER_NOT_FOUND,
                   message = ''Cannot create session for non-existent user'',
                   statusCode = 404\<rparr>), db)"
  using assms
  by (simp add: SessionManager_create_def SessionManager_create_try_def sanitizeInput_def
      verifyUserExists_def sql_user_exists_def Let_def)

lemma create_try_throws:
  assumes "SessionManager_create_try sid uuid t1 t2 t3 userId durationMs db = (Inl e, db')"
  shows "(\<exists>m. e = JsError m) \<or>
         (\<exists>a. e = AppErr a \<and> etype a \<noteq> App AUTHENTICATION_FAILED)"
  using assms
  by (auto simp: SessionManager_create_try_def Let_def validation_error_def database_error_def
      Session_toDatabaseRow_def sql_sessions_insert_def not_open_def
      split: if_splits sum.splits prod.splits option.splits)

lemma create_throws:
  assumes "fst (SessionManager_create sid uuid t1 t2 t3 userId durationMs db) = Inl e"
  shows "\<exists>a. e = AppErr a \<and> etype a \<noteq> App AUTHENTICATION_FAILED"
proof (cases "SessionManager_create_try sid uuid t1 t2 t3 userId durationMs db")
  case (Pair r db')
  show ?thesis
  proof (cases r)
    case (Inl e0)
    with Pair assms have e: "e = rethrow_or e0 (database_error ''Failed to create session'')"
      by (simp add: SessionManager_create_def)
    from create_try_throws [of sid uuid t1 t2 t3 userId durationMs db e0 db'] Pair Inl
    show ?thesis
      by (auto simp: e database_error_def)
  next
    case (Inr s)
    with Pair assms show ?thesis
      by (simp add: SessionManager_create_def)
  qed
qed


lemma createSession_empty:
  "trim userId = [] \<Longrightarrow>
   createSession this sm_create userId v =
     (Inl (AppErr \<lparr>etype = App VALIDATION_ERROR,
                   message = ''User ID is required to create session'',
                   statusCode = 400\<rparr>), v)"
  by (simp add: createSession_def validation_error_def)

lemma trim_nonempty: "trim userId \<noteq> [] \<Longrightarrow> userId \<noteq> []"
  by auto

text \<open>
  C8 (as the code has it). \<^verbatim>\<open>createSession\<close> answers a user id that is empty after
  trimming with the \<^verbatim>\<open>VALIDATION_ERROR\<close> of status 400. Any other failure of the session
  store's \<^verbatim>\<open>create\<close> that has the \<^verbatim>\<open>AppError\<close> shape reaches the caller unchanged; only a
  thrown value of another shape becomes \<^verbatim>\<open>AUTHENTICATION_FAILED\<close> with status 500. The
  \<^verbatim>\<open>SessionManager\<close> of this repository throws \<^verbatim>\<open>AppError\<close>s only: for a user that does not
  exist the caller gets its \<^verbatim>\<open>USER_NOT_FOUND\<close> of status 404, and with it
  \<^verbatim>\<open>createSession\<close> never answers \<^verbatim>\<open>AUTHENTICATION_FAILED\<close>.
\<close>

theorem createSession_errors:
  "(trim userId = [] \<longrightarrow>
      createSession this sm_create userId v =
        (Inl (AppErr \<lparr>etype = App VALIDATION_ERROR,
                      message = ''User ID is required to create session'',
                      statusCode = 400\<rparr>), v))
   \<and> (trim userId \<noteq> [] \<and> sm_create userId v = (Inl (AppErr e), v') \<longrightarrow>
        createSession this sm_create userId v = (Inl (AppErr e), v'))
   \<and> (trim userId \<noteq> [] \<and> sm_create userId v = (Inl (JsError m), v') \<longrightarrow>
        createSession this sm_create userId v =
          (Inl (AppErr \<lparr>etype = App AUTHENTICATION_FAILED,
                        message = ''Failed to create authentication session'',
                        statusCode = 500\<rparr>), v'))
   \<and> (trim userId \<noteq> [] \<and> \<not> list_ex (\<lambda>r. row_id r = trim userId) (users db) \<longrightarrow>
        createSession this (\<lambda>u. SessionManager_create sid uuid t1 t2 t3 u None) userId db =
          (Inl (AppErr \<lparr>etype = App USER_NOT_FOUND,
                        message = ''Cannot create session for non-existent user'',
                        statusCode = 404\<rparr>), db))
   \<and> (trim userId \<noteq> [] \<and> fst (SessionManager_create sid uuid t1 t2 t3 userId None db) = Inl x \<longrightarrow>
        fst (createSession this (\<lambda>u. SessionManager_create sid uuid t1 t2 t3 u None) userId db) = Inl x
        \<and> (\<exists>a. x = AppErr a \<and> etype a \<noteq> App AUTHENTICATION_FAILED))"
proof (intro conjI impI)
  assume "trim userId = []"
  then show "createSession this sm_create userId v =
        (Inl (AppErr \<lparr>etype = App VALIDATION_ERROR,
                      message = ''User ID is required to create session'',
                      statusCode = 400\<rparr>), v)"
    by (rule createSession_empty)
next
  assume "trim userId \<noteq> [] \<and> sm_create userId v = (Inl (AppErr e), v')"
  then show "createSession this sm_create userId v = (Inl (AppErr e), v')"
    using trim_nonempty [of userId] by (simp add: createSession_def)
next
  assume "trim userId \<noteq> [] \<and> sm_create userId v = (Inl (JsError m), v')"
  then show "createSession this sm_create userId v =
          (Inl (AppErr \<lparr>etype = App AUTHENTICATION_FAILED,
                        message = ''Failed to create authentication session'',
                        statusCode = 500\<rparr>), v')"
    using trim_nonempty [of userId] by (simp add: createSession_def auth_failed_def)
next
  assume h: "trim userId \<noteq> [] \<and> \<not> list_ex (\<lambda>r. row_id r = trim userId) (users db)"
  then have "SessionManager_create sid uuid t1 t2 t3 userId None db =
     (Inl (AppErr \<lparr>etype = App USER_NOT_FOUND,
                   message = ''Cannot create session for non-existent user'',
                   statusCode = 404\<rparr>), db)"
    by (intro create_no_user) blast+
  with h show "createSession this (\<lambda>u. SessionManager_create sid uuid t1 t2 t3 u None) userId db =
          (Inl (AppErr \<lparr>etype = App USER_NOT_FOUND,
                        message = ''Cannot create session for non-existent user'',
                        statusCode = 404\<rparr>), db)"
    using trim_nonempty [of userId] by (simp add: createSession_def)
next
  assume h: "trim userId \<noteq> [] \<and> fst (SessionManager_create sid uuid t1 t2 t3 userId None db) = Inl x"
  then have thrown: "fst (SessionManager_create sid uuid t1 t2 t3 userId None db) = Inl x"
    by blast
  from create_throws [OF thrown] obtain a
    where a: "x = AppErr a" "etype a \<noteq> App AUTHENTICATION_FAILED"
    by blast
  then show "\<exists>a. x = AppErr a \<and> etype a \<noteq> App AUTHENTICATION_FAILED"
    by blast
  obtain r db' where c: "SessionManager_create sid uuid t1 t2 t3 userId None db = (r, db')"
    by (cases "SessionManager_create sid uuid t1 t2 t3 userId None db")
  with thrown a have "SessionManager_create sid uuid t1 t2 t3 userId None db = (Inl (AppErr a), db')"
    by simp
  with h a show "fst (createSession this (\<lambda>u. SessionManager_create sid uuid t1 t2 t3 u None) userId db) = Inl x"
    using trim_nonempty [of userId] by (simp add: createSession_def)
qed

lemma trim_no_such_user: "trim ''no-such-user'' = ''no-such-user''"
  by (rule trim_no_whitespace) (simp add: is_whitespace_def)

theorem createSession_errors_witness:
  "createSession \<lparr>isInitialized = True\<rparr>
     (\<lambda>u. SessionManager_create
        ''9f86d081884c7d659a2feaa0c55ad015a3bf4f1b2b0b822cd15d6c15b0f00a08'' ''uuid-1''
        1000 1000 1000 u None)
     ''no-such-user'' \<lparr>db_open = True, users = [], sessions = []\<rparr>
   = (Inl (AppErr \<lparr>etype = App USER_NOT_FOUND,
                   message = ''Cannot create session for non-existent user'',
                   statusCode = 404\<rparr>),
      \<lparr>db_open = True, users = [], sessions = []\<rparr>)"
proof -
  have hyp: "trim ''no-such-user'' \<noteq> [] \<and>
      \<not> list_ex (\<lambda>r. row_id r = trim ''no-such-user'')
          (users \<lparr>db_open = True, users = [], sessions = []\<rparr>)"
    by (simp add: trim_no_such_user)
  show ?thesis
    by (rule createSession_errors [THEN conjunct2, THEN conjunct2, THEN conjunct2,
          THEN conjunct1, THEN mp, OF hyp])
qed

theorem createSession_errors_counterexample:
  "fst (createSession \<lparr>isInitialized = True\<rparr>
     (\<lambda>u. SessionManager_create
        ''9f86d081884c7d659a2feaa0c55ad015a3bf4f1b2b0b822cd15d6c15b0f00a08'' ''uuid-1''
        1000 1000 1000 u None)
     ''no-such-user'' \<lparr>db_open = True, users = [], sessions = []\<rparr>)
   = Inl (AppErr \<lparr>etype = App USER_NOT_FOUND,
                   message = ''Cannot create session for non-existent user'',
                   statusCode = 404\<rparr>)
   \<and> fst (createSession \<lparr>isInitialized = True\<rparr>
     (\<lambda>u. SessionManager_create
        ''9f86d081884c7d659a2feaa0c55ad015a3bf4f1b2b0b822cd15d6c15b0f00a08'' ''uuid-1''
        1000 1000 1000 u None)
     ''no-such-user'' \<lparr>db_open = True, users = [], sessions = []\<rparr>)
   \<noteq> Inl (AppErr \<lparr>etype = App AUTHENTICATION_FAILED,
                   message = ''Failed to create authentication session'',
                   statusCode = 500\<rparr>)"
proof -
  have "SessionManager_create
        ''9f86d081884c7d659a2feaa0c55ad015a3bf4f1b2b0b822cd15d6c15b0f00a08'' ''uuid-1''
        1000 1000 1000 ''no-such-user'' None \<lparr>db_open = True, users = [], sessions = []\<rparr>
     = (Inl (AppErr \<lparr>etype = App USER_NOT_FOUND,
                   message = ''Cannot create session for non-existent user'',
                   statusCode = 404\<rparr>), \<lparr>db_open = True, users = [], sessions = []\<rparr>)"
    by (rule create_no_user) (simp_all add: trim_no_such_user)
  then show ?thesis
    by (simp add: createSession_def trim_no_such_user)
qed

section \<open>The user store\<close>

subsection \<open>Provider names and validation\<close>

lemma toLowerCase_whitespace: "is_whitespace c \<Longrightarrow> toLowerCase_char c = c"
  by (auto simp: is_whitespace_def toLowerCase_char_def Let_def)

lemma provider_letters_no_whitespace:
  "c \<in> set ''microsoft'' \<union> set ''github'' \<Longrightarrow> \<not> is_whitespace c"
  by (auto simp: is_whitespace_def)

lemma isValidProvider_no_whitespace:
  assumes "isValidProvider p"
  shows "list_all (\<lambda>c. \<not> is_whitespace c) p"
proof -
  have "\<not> is_whitespace c" if c: "c \<in> set p" for c
  proof
    assume w: "is_whitespace c"
    from c have "toLowerCase_char c \<in> set (toLowerCase p)"
      by (simp add: toLowerCase_def)
    with w have "c \<in> set (toLowerCase p)"
      by (simp add: toLowerCase_whitespace)
    with assms have "c \<in> set ''microsoft'' \<union> set ''github''"
      by (auto simp: isValidProvider_def)
    with w show False
      using provider_letters_no_whitespace by blast
  qed
  then show ?thesis
    by (simp add: list_all_iff)
qed

lemma isValidProvider_trim: "isValidProvider p \<Longrightarrow> trim p = p"
  by (rule trim_no_whitespace) (rule isValidProvider_no_whitespace)

lemma isValidProvider_nonempty: "isValidProvider p \<Longrightarrow> p \<noteq> []"
  by (auto simp: isValidProvider_def toLowerCase_def)

lemma isValidEmail_nonempty: "isValidEmail e \<Longrightarrow> e \<noteq> []"
  by (auto simp: isValidEmail_def)

lemma User_validate_fromProfile:
  assumes "trim (prof_username p) \<noteq> []" "isValidEmail (trim (prof_email p))"
    "isValidProvider (prof_provider p)" "trim (prof_id p) \<noteq> []"
  shows "User_validate (User_fromProfile uuid t1 t2
            \<lparr>prof_id = sanitizeInput (prof_id p), prof_username = sanitizeInput (prof_username p),
             prof_email = sanitizeInput (prof_email p), prof_provider = prof_provider p\<rparr>) = []"
  using assms isValidEmail_nonempty [of "trim (prof_email p)"]
    isValidProvider_nonempty [of "prof_provider p"]
  by (simp add: User_validate_def User_fromProfile_def User_new_def sanitizeInput_def)

subsection \<open>Lookup by provider id\<close>

lemma findByProviderId_open:
  assumes "db_open db" "trim providerId \<noteq> []" "isValidProvider provider"
  shows "findByProviderId uuid providerId provider db =
     Inr (map_option (User_fromDatabaseRow uuid)
            (find (\<lambda>r. row_provider_id r = trim providerId \<and> row_provider r = provider) (users db)))"
  using assms isValidProvider_trim [of provider] isValidProvider_nonempty [of provider]
  by (simp add: findByProviderId_def findByProviderId_try_def sanitizeInput_def
      sql_users_by_provider_def Let_def split: option.splits)

subsection \<open>Creation\<close>

lemma createUser_lookup_ok:
  assumes "db_open db"
    and "trim (prof_username p) \<noteq> []" "isValidEmail (trim (prof_email p))"
    "isValidProvider (prof_provider p)" "trim (prof_id p) \<noteq> []"
    and "\<not> list_ex (\<lambda>r. row_provider r = prof_provider p \<and> row_provider_id r = trim (prof_id p))
            (users db)"
  shows "createUser_lookup ur uuid t1 t2 p db =
     Inr (User_fromProfile uuid t1 t2
            \<lparr>prof_id = sanitizeInput (prof_id p), prof_username = sanitizeInput (prof_username p),
             prof_email = sanitizeInput (prof_email p), prof_provider = prof_provider p\<rparr>)"
proof -
  have none: "find (\<lambda>r. row_provider_id r = trim (prof_id p) \<and> row_provider r = prof_provider p)
      (users db) = None"
    using assms(6) by (auto simp: find_None_iff list_ex_iff)
  have "findByProviderId ur (sanitizeInput (prof_id p)) (prof_provider p) db = Inr None"
    using findByProviderId_open [of db "sanitizeInput (prof_id p)" "prof_provider p" ur] assms none
    by (simp add: sanitizeInput_def)
  then show ?thesis
    using User_validate_fromProfile [OF assms(2-5), of uuid t1 t2]
    by (simp add: createUser_lookup_def Let_def)
qed

lemma createUser_lookup_conflict:
  assumes "db_open db"
    and "trim (prof_username p) \<noteq> []" "isValidEmail (trim (prof_email p))"
    "isValidProvider (prof_provider p)" "trim (prof_id p) \<noteq> []"
    and "list_ex (\<lambda>r. row_provider r = prof_provider p \<and> row_provider_id r = trim (prof_id p))
            (users db)"
  shows "createUser_lookup ur uuid t1 t2 p db = Inl (AppErr conflict_error)"
proof -
  from assms(6) obtain r where "r \<in> set (users db)"
      "row_provider_id r = trim (prof_id p) \<and> row_provider r = prof_provider p"
    by (auto simp: list_ex_iff)
  then have "find (\<lambda>r. row_provider_id r = trim (prof_id p) \<and> row_provider r = prof_provider p)
      (users db) \<noteq> None"
    by (auto simp: find_None_iff)
  then obtain row where
    "find (\<lambda>r. row_provider_id r = trim (prof_id p) \<and> row_provider r = prof_provider p)
      (users db) = Some row"
    by blast
  then have "findByProviderId ur (sanitizeInput (prof_id p)) (prof_provider p) db =
      Inr (Some (User_fromDatabaseRow ur row))"
    using findByProviderId_open [of db "sanitizeInput (prof_id p)" "prof_provider p" ur] assms
    by (simp add: sanitizeInput_def)
  then show ?thesis
    using User_validate_fromProfile [OF assms(2-5), of uuid t1 t2]
    by (simp add: createUser_lookup_def Let_def)
qed

lemma unique_message_id:
  "str_includes ''UNIQUE constraint failed: users.id'' ''UNIQUE constraint failed''"
  by simp

lemma unique_message_provider:
  "str_includes ''UNIQUE constraint failed: users.provider, users.provider_id''
     ''UNIQUE constraint failed''"
  by simp

lemma createUser_insert_ok:
  assumes "db_open db" "user_createdAt user = Some c" "user_updatedAt user = Some m"
    and "\<not> list_ex (\<lambda>r. row_id r = user_id user) (users db)"
    and "\<not> list_ex (\<lambda>r. row_provider r = user_provider user \<and>
                           row_provider_id r = user_providerId user) (users db)"
  shows "createUser_insert user db =
     (Inr user,
      db\<lparr>users := users db @
           [\<lparr>row_id = user_id user, row_username = user_username user,
             row_email = user_email user, row_provider = user_provider user,
             row_provider_id = user_providerId user, row_created_at = c,
             row_updated_at = m\<rparr>]\<rparr>)"
  using assms
  by (simp add: createUser_insert_def User_toDatabaseRow_def sql_users_insert_def)

lemma createUser_insert_duplicate:
  assumes "db_open db" "user_createdAt user = Some c" "user_updatedAt user = Some m"
    and "list_ex (\<lambda>r. row_provider r = user_provider user \<and>
                         row_provider_id r = user_providerId user) (users db)"
  shows "\<exists>e. createUser_insert user db = (Inl e, db) \<and> createUser_catch e = AppErr conflict_error"
proof (cases "list_ex (\<lambda>r. row_id r = user_id user) (users db)")
  case True
  with assms have "createUser_insert user db =
      (Inl (JsError ''UNIQUE constraint failed: users.id''), db)"
    by (simp add: createUser_insert_def User_toDatabaseRow_def sql_users_insert_def)
  moreover have "createUser_catch (JsError ''UNIQUE constraint failed: users.id'') =
      AppErr conflict_error"
    using unique_message_id by (simp add: createUser_catch_def)
  ultimately show ?thesis by blast
next
  case False
  with assms have "createUser_insert user db =
      (Inl (JsError ''UNIQUE constraint failed: users.provider, users.provider_id''), db)"
    by (simp add: createUser_insert_def User_toDatabaseRow_def sql_users_insert_def)
  moreover have "createUser_catch
      (JsError ''UNIQUE constraint failed: users.provider, users.provider_id'') =
      AppErr conflict_error"
    using unique_message_provider by (simp add: createUser_catch_def)
  ultimately show ?thesis by blast
qed

lemma createUser_ok:
  assumes "db_open db"
    and "trim (prof_username p) \<noteq> []" "isValidEmail (trim (prof_email p))"
    "isValidProvider (prof_provider p)" "trim (prof_id p) \<noteq> []"
    and "\<not> list_ex (\<lambda>r. row_provider r = prof_provider p \<and> row_provider_id r = trim (prof_id p))
            (users db)"
    and "\<not> list_ex (\<lambda>r. row_id r = uuid) (users db)"
  shows "createUser ur uuid t1 t2 p db =
     (Inr \<lparr>user_id = uuid, user_username = trim (prof_username p),
           user_email = trim (prof_email p), user_provider = prof_provider p,
           user_providerId = trim (prof_id p), user_createdAt = Some t1,
           user_updatedAt = Some t2\<rparr>,
      db\<lparr>users := users db @
           [\<lparr>row_id = uuid, row_username = trim (prof_username p),
             row_email = trim (prof_email p), row_provider = prof_provider p,
             row_provider_id = trim (prof_id p), row_created_at = t1,
             row_updated_at = t2\<rparr>]\<rparr>)"
proof -
  let ?user = "User_fromProfile uuid t1 t2
            \<lparr>prof_id = sanitizeInput (prof_id p), prof_username = sanitizeInput (prof_username p),
             prof_email = sanitizeInput (prof_email p), prof_provider = prof_provider p\<rparr>"
  have u: "?user = \<lparr>user_id = uuid, user_username = trim (prof_username p),
           user_email = trim (prof_email p), user_provider = prof_provider p,
           user_providerId = trim (prof_id p), user_createdAt = Some t1,
           user_updatedAt = Some t2\<rparr>"
    by (simp add: User_fromProfile_def User_new_def truthy_def sanitizeInput_def)
  have look: "createUser_lookup ur uuid t1 t2 p db = Inr ?user"
    by (rule createUser_lookup_ok [OF assms(1-6)])
  have ins: "createUser_insert ?user db =
     (Inr ?user,
      db\<lparr>users := users db @
           [\<lparr>row_id = uuid, row_username = trim (prof_username p),
             row_email = trim (prof_email p), row_provider = prof_provider p,
             row_provider_id = trim (prof_id p), row_created_at = t1,
             row_updated_at = t2\<rparr>]\<rparr>)"
    using createUser_insert_ok [of db ?user t1 t2] assms(1,6,7)
    by (simp add: u)
  show ?thesis
    using look ins by (simp add: createUser_def u)
qed

lemma createUser_conflict:
  assumes "db_open db"
    and "trim (prof_username p) \<noteq> []" "isValidEmail (trim (prof_email p))"
    "isValidProvider (prof_provider p)" "trim (prof_id p) \<noteq> []"
    and "list_ex (\<lambda>r. row_provider r = prof_provider p \<and> row_provider_id r = trim (prof_id p))
            (users db)"
  shows "createUser ur uuid t1 t2 p db = (Inl (AppErr conflict_error), db)"
  using createUser_lookup_conflict [OF assms, of ur uuid t1 t2]
  by (simp add: createUser_def createUser_catch_def)

text \<open>
  C4. Two \<^verbatim>\<open>createUser\<close> calls with valid profiles that carry the same provider and, after
  trimming, the same provider id, on an open store that has no user of this identity yet
  (the uuids drawn for the new users being unused). Whichever call runs first creates the
  user, and the other fails with the error of status 409, \<^verbatim>\<open>User already exists with this
  provider ID\<close>, leaving the table as it is: one row of this identity, never two. The same
  holds when the two calls interleave at the \<^verbatim>\<open>await\<close>, both lookups finding nothing: the
  second \<^verbatim>\<open>INSERT\<close> breaks the uniqueness constraint, and the handler turns the
  \<^verbatim>\<open>SqliteError\<close> into the same error of status 409.
\<close>

theorem createUser_duplicate:
  assumes "db_open db"
    and v1: "trim (prof_username p1) \<noteq> [] \<and> isValidEmail (trim (prof_email p1)) \<and>
             isValidProvider (prof_provider p1) \<and> trim (prof_id p1) \<noteq> []"
    and v2: "trim (prof_username p2) \<noteq> [] \<and> isValidEmail (trim (prof_email p2)) \<and>
             isValidProvider (prof_provider p2) \<and> trim (prof_id p2) \<noteq> []"
    and same: "prof_provider p1 = prof_provider p2 \<and> trim (prof_id p1) = trim (prof_id p2)"
    and absent: "\<not> list_ex (\<lambda>r. row_provider r = prof_provider p1 \<and>
                                  row_provider_id r = trim (prof_id p1)) (users db)"
    and fresh1: "\<not> list_ex (\<lambda>r. row_id r = uuid1) (users db)"
    and fresh2: "\<not> list_ex (\<lambda>r. row_id r = uuid2) (users db)"
  shows "(\<exists>user1 db1.
            createUser ur1 uuid1 a1 b1 p1 db = (Inr user1, db1)
          \<and> createUser ur2 uuid2 a2 b2 p2 db1 =
              (Inl (AppErr \<lparr>etype = App VALIDATION_ERROR,
                            message = ''User already exists with this provider ID'',
                            statusCode = 409\<rparr>), db1)
          \<and> length (filter (\<lambda>r. row_provider r = prof_provider p1 \<and>
                                 row_provider_id r = trim (prof_id p1)) (users db1)) = 1)
       \<and> (\<exists>user2 db2.
            createUser ur2 uuid2 a2 b2 p2 db = (Inr user2, db2)
          \<and> createUser ur1 uuid1 a1 b1 p1 db2 =
              (Inl (AppErr \<lparr>etype = App VALIDATION_ERROR,
                            message = ''User already exists with this provider ID'',
                            statusCode = 409\<rparr>), db2)
          \<and> length (filter (\<lambda>r. row_provider r = prof_provider p1 \<and>
                                 row_provider_id r = trim (prof_id p1)) (users db2)) = 1)
       \<and> (\<exists>user1 user2 db1 e2.
            createUser_lookup ur1 uuid1 a1 b1 p1 db = Inr user1
          \<and> createUser_lookup ur2 uuid2 a2 b2 p2 db = Inr user2
          \<and> createUser_insert user1 db = (Inr user1, db1)
          \<and> createUser_insert user2 db1 = (Inl e2, db1)
          \<and> createUser_catch e2 =
              AppErr \<lparr>etype = App VALIDATION_ERROR,
                      message = ''User already exists with this provider ID'',
                      statusCode = 409\<rparr>
          \<and> length (filter (\<lambda>r. row_provider r = prof_provider p1 \<and>
                                 row_provider_id r = trim (prof_id p1)) (users db1)) = 1)"
proof -
  let ?key = "\<lambda>r. row_provider r = prof_provider p1 \<and> row_provider_id r = trim (prof_id p1)"
  let ?row1 = "\<lparr>row_id = uuid1, row_username = trim (prof_username p1),
             row_email = trim (prof_email p1), row_provider = prof_provider p1,
             row_provider_id = trim (prof_id p1), row_created_at = a1, row_updated_at = b1\<rparr>"
  let ?row2 = "\<lparr>row_id = uuid2, row_username = trim (prof_username p2),
             row_email = trim (prof_email p2), row_provider = prof_provider p2,
             row_provider_id = trim (prof_id p2), row_created_at = a2, row_updated_at = b2\<rparr>"
  let ?db1 = "db\<lparr>users := users db @ [?row1]\<rparr>"
  let ?db2 = "db\<lparr>users := users db @ [?row2]\<rparr>"
  let ?user1 = "\<lparr>user_id = uuid1, user_username = trim (prof_username p1),
           user_email = trim (prof_email p1), user_provider = prof_provider p1,
           user_providerId = trim (prof_id p1), user_createdAt = Some a1,
           user_updatedAt = Some b1\<rparr>"
  let ?user2 = "\<lparr>user_id = uuid2, user_username = trim (prof_username p2),
           user_email = trim (prof_email p2), user_provider = prof_provider p2,
           user_providerId = trim (prof_id p2), user_createdAt = Some a2,
           user_updatedAt = Some b2\<rparr>"
  have conflict: "conflict_error = \<lparr>etype = App VALIDATION_ERROR,
                            message = ''User already exists with this provider ID'',
                            statusCode = 409\<rparr>"
    by (simp add: conflict_error_def)
  from v1 have u1: "trim (prof_username p1) \<noteq> []" and e1: "isValidEmail (trim (prof_email p1))"
    and pr1: "isValidProvider (prof_provider p1)" and i1: "trim (prof_id p1) \<noteq> []"
    by blast+
  from v2 have u2: "trim (prof_username p2) \<noteq> []" and e2: "isValidEmail (trim (prof_email p2))"
    and pr2: "isValidProvider (prof_provider p2)" and i2: "trim (prof_id p2) \<noteq> []"
    by blast+
  from same have sp: "prof_provider p2 = prof_provider p1" and si: "trim (prof_id p2) = trim (prof_id p1)"
    by simp_all
  from absent have absent2: "\<not> list_ex (\<lambda>r. row_provider r = prof_provider p2 \<and>
                                  row_provider_id r = trim (prof_id p2)) (users db)"
    by (simp add: sp si)
  have none: "filter ?key (users db) = []"
    using absent by (auto simp: filter_empty_conv list_ex_iff)
  have open1: "db_open ?db1" and open2: "db_open ?db2"
    using assms(1) by simp_all
  have present1: "list_ex (\<lambda>r. row_provider r = prof_provider p2 \<and>
                                  row_provider_id r = trim (prof_id p2)) (users ?db1)"
    by (simp add: sp si)
  have present2: "list_ex ?key (users ?db2)"
    by (simp add: sp si)
  have first1: "createUser ur1 uuid1 a1 b1 p1 db = (Inr ?user1, ?db1)"
    by (rule createUser_ok [OF assms(1) u1 e1 pr1 i1 absent fresh1])
  have second1: "createUser ur2 uuid2 a2 b2 p2 ?db1 = (Inl (AppErr conflict_error), ?db1)"
    by (rule createUser_conflict [OF open1 u2 e2 pr2 i2 present1])
  have count1: "length (filter ?key (users ?db1)) = 1"
    by (simp add: none)
  have first2: "createUser ur2 uuid2 a2 b2 p2 db = (Inr ?user2, ?db2)"
    by (rule createUser_ok [OF assms(1) u2 e2 pr2 i2 absent2 fresh2])
  have second2: "createUser ur1 uuid1 a1 b1 p1 ?db2 = (Inl (AppErr conflict_error), ?db2)"
    by (rule createUser_conflict [OF open2 u1 e1 pr1 i1 present2])
  have count2: "length (filter ?key (users ?db2)) = 1"
    by (simp add: none sp si)
  have look1: "createUser_lookup ur1 uuid1 a1 b1 p1 db = Inr ?user1"
    using createUser_lookup_ok [OF assms(1) u1 e1 pr1 i1 absent, of ur1 uuid1 a1 b1]
    by (simp add: User_fromProfile_def User_new_def truthy_def sanitizeInput_def)
  have look2: "createUser_lookup ur2 uuid2 a2 b2 p2 db = Inr ?user2"
    using createUser_lookup_ok [OF assms(1) u2 e2 pr2 i2 absent2, of ur2 uuid2 a2 b2]
    by (simp add: User_fromProfile_def User_new_def truthy_def sanitizeInput_def)
  have ins1: "createUser_insert ?user1 db = (Inr ?user1, ?db1)"
    using createUser_insert_ok [of db ?user1 a1 b1] assms(1) absent fresh1
    by simp
  have "\<exists>e. createUser_insert ?user2 ?db1 = (Inl e, ?db1) \<and> createUser_catch e = AppErr conflict_error"
    using createUser_insert_duplicate [of ?db1 ?user2 a2 b2] assms(1)
    by (simp add: sp si)
  then obtain e where ins2: "createUser_insert ?user2 ?db1 = (Inl e, ?db1)"
    and caught: "createUser_catch e = AppErr conflict_error"
    by blast
  show ?thesis
  proof (intro conjI)
    show "\<exists>user1 db1.
            createUser ur1 uuid1 a1 b1 p1 db = (Inr user1, db1)
          \<and> createUser ur2 uuid2 a2 b2 p2 db1 =
              (Inl (AppErr \<lparr>etype = App VALIDATION_ERROR,
                            message = ''User already exists with this provider ID'',
                            statusCode = 409\<rparr>), db1)
          \<and> length (filter ?key (users db1)) = 1"
      using first1 second1 count1 unfolding conflict by blast
    show "\<exists>user2 db2.
            createUser ur2 uuid2 a2 b2 p2 db = (Inr user2, db2)
          \<and> createUser ur1 uuid1 a1 b1 p1 db2 =
              (Inl (AppErr \<lparr>etype = App VALIDATION_ERROR,
                            message = ''User already exists with this provider ID'',
                            statusCode = 409\<rparr>), db2)
          \<and> length (filter ?key (users db2)) = 1"
      using first2 second2 count2 unfolding conflict by blast
    show "\<exists>user1 user2 db1 e2.
            createUser_lookup ur1 uuid1 a1 b1 p1 db = Inr user1
          \<and> createUser_lookup ur2 uuid2 a2 b2 p2 db = Inr user2
          \<and> createUser_insert user1 db = (Inr user1, db1)
          \<and> createUser_insert user2 db1 = (Inl e2, db1)
          \<and> createUser_catch e2 =
              AppErr \<lparr>etype = App VALIDATION_ERROR,
                      message = ''User already exists with this provider ID'',
                      statusCode = 409\<rparr>
          \<and> length (filter ?key (users db1)) = 1"
      using look1 look2 ins1 ins2 caught count1 unfolding conflict by blast
  qed
qed


lemma alice_valid:
  "trim (prof_username \<lparr>prof_id = ''gh-1'', prof_username = ''alice'', prof_email = ''a@x.com'',
                         prof_provider = ''github''\<rparr>) \<noteq> [] \<and>
   isValidEmail (trim (prof_email \<lparr>prof_id = ''gh-1'', prof_username = ''alice'',
                         prof_email = ''a@x.com'', prof_provider = ''github''\<rparr>)) \<and>
   isValidProvider (prof_provider \<lparr>prof_id = ''gh-1'', prof_username = ''alice'',
                         prof_email = ''a@x.com'', prof_provider = ''github''\<rparr>) \<and>
   trim (prof_id \<lparr>prof_id = ''gh-1'', prof_username = ''alice'', prof_email = ''a@x.com'',
                         prof_provider = ''github''\<rparr>) \<noteq> []"
  by code_simp

theorem createUser_duplicate_witness:
  "\<exists>user1 db1.
      createUser ''uuid-0'' ''uuid-1'' 1000 1000
        \<lparr>prof_id = ''gh-1'', prof_username = ''alice'', prof_email = ''a@x.com'',
          prof_provider = ''github''\<rparr>
        \<lparr>db_open = True, users = [], sessions = []\<rparr> = (Inr user1, db1)
    \<and> createUser ''uuid-0'' ''uuid-2'' 2000 2000
        \<lparr>prof_id = ''gh-1'', prof_username = ''alice'', prof_email = ''a@x.com'',
          prof_provider = ''github''\<rparr> db1 =
        (Inl (AppErr \<lparr>etype = App VALIDATION_ERROR,
                      message = ''User already exists with this provider ID'',
                      statusCode = 409\<rparr>), db1)"
proof -
  have opened: "db_open \<lparr>db_open = True, users = [], sessions = []\<rparr>"
    by simp
  have same: "prof_provider \<lparr>prof_id = ''gh-1'', prof_username = ''alice'', prof_email = ''a@x.com'',
          prof_provider = ''github''\<rparr> = prof_provider \<lparr>prof_id = ''gh-1'', prof_username = ''alice'',
          prof_email = ''a@x.com'', prof_provider = ''github''\<rparr> \<and>
      trim (prof_id \<lparr>prof_id = ''gh-1'', prof_username = ''alice'', prof_email = ''a@x.com'',
          prof_provider = ''github''\<rparr>) = trim (prof_id \<lparr>prof_id = ''gh-1'', prof_username = ''alice'',
          prof_email = ''a@x.com'', prof_provider = ''github''\<rparr>)"
    by simp
  have absent: "\<not> list_ex (\<lambda>r. row_provider r = prof_provider \<lparr>prof_id = ''gh-1'',
          prof_username = ''alice'', prof_email = ''a@x.com'', prof_provider = ''github''\<rparr> \<and>
        row_provider_id r = trim (prof_id \<lparr>prof_id = ''gh-1'', prof_username = ''alice'',
          prof_email = ''a@x.com'', prof_provider = ''github''\<rparr>))
      (users \<lparr>db_open = True, users = [], sessions = []\<rparr>)"
    by simp
  have fresh1: "\<not> list_ex (\<lambda>r. row_id r = ''uuid-1'') (users \<lparr>db_open = True, users = [], sessions = []\<rparr>)"
    by simp
  have fresh2: "\<not> list_ex (\<lambda>r. row_id r = ''uuid-2'') (users \<lparr>db_open = True, users = [], sessions = []\<rparr>)"
    by simp
  from createUser_duplicate [OF opened alice_valid alice_valid same absent fresh1 fresh2,
      THEN conjunct1, of "''uuid-0''" 1000 1000 "''uuid-0''" 2000 2000]
  show ?thesis
    by blast
qed

subsection \<open>Letter case of the provider name\<close>

lemma provider_letter_codes:
  "l \<in> set ''microsoft'' \<union> set ''github'' \<Longrightarrow> 97 \<le> (of_char l :: nat) \<and> (of_char l :: nat) \<le> 122"
  by auto

lemma toLowerCase_char_casing:
  assumes l: "l \<in> set ''microsoft'' \<union> set ''github''"
    and c: "c = l \<or> (of_char c :: nat) + 32 = of_char l"
  shows "toLowerCase_char c = l"
proof -
  from provider_letter_codes [OF l]
  have range: "97 \<le> (of_char l :: nat)" "(of_char l :: nat) \<le> 122"
    by simp_all
  from c show ?thesis
  proof
    assume "c = l"
    with range show ?thesis
      by (simp add: toLowerCase_char_def Let_def)
  next
    assume up: "(of_char c :: nat) + 32 = of_char l"
    with range have "65 \<le> (of_char c :: nat)" "(of_char c :: nat) \<le> 90"
      by simp_all
    then have "toLowerCase_char c = char_of ((of_char c :: nat) + 32)"
      by (simp add: toLowerCase_char_def Let_def)
    also have "\<dots> = char_of (of_char l :: nat)"
      by (simp only: up)
    also have "\<dots> = l"
      by simp
    finally show ?thesis .
  qed
qed

lemma toLowerCase_casing:
  assumes "list_all2 (\<lambda>l c. c = l \<or> (of_char c :: nat) + 32 = of_char l) w p"
    and "set w \<subseteq> set ''microsoft'' \<union> set ''github''"
  shows "toLowerCase p = w"
  using assms
proof (induction w p rule: list_all2_induct)
  case Nil
  then show ?case by (simp add: toLowerCase_def)
next
  case (Cons l w c p)
  from Cons.prems have l: "l \<in> set ''microsoft'' \<union> set ''github''"
    and rest: "set w \<subseteq> set ''microsoft'' \<union> set ''github''"
    by simp_all
  from Cons.IH [OF rest] have "map toLowerCase_char p = w"
    by (simp add: toLowerCase_def)
  with toLowerCase_char_casing [OF l Cons.hyps(1)] show ?case
    by (simp add: toLowerCase_def)
qed

lemma casing_isValidProvider:
  assumes "w = ''microsoft'' \<or> w = ''github''"
    and "list_all2 (\<lambda>l c. c = l \<or> (of_char c :: nat) + 32 = of_char l) w p"
  shows "isValidProvider p"
proof -
  from assms(1) have "set w \<subseteq> set ''microsoft'' \<union> set ''github''"
    by auto
  from toLowerCase_casing [OF assms(2) this] assms(1) show ?thesis
    by (auto simp: isValidProvider_def)
qed


lemma find_snoc:
  "find P (xs @ [x]) = (case find P xs of None \<Rightarrow> (if P x then Some x else None) | Some y \<Rightarrow> Some y)"
  by (induction xs) simp_all

text \<open>
  C10. A provider name in any letter case of \<^verbatim>\<open>microsoft\<close> or \<^verbatim>\<open>github\<close> (each character
  the lower-case letter or its capital, 32 below it) passes \<^verbatim>\<open>isValidProvider\<close>, the check
  of both \<^verbatim>\<open>findByProviderId\<close> and \<^verbatim>\<open>createUser\<close>. The table stores and compares the name as
  it was given: \<^verbatim>\<open>createUser\<close> with such a name \<open>p\<close> persists a row whose provider is \<open>p\<close>
  itself, a lookup with \<open>p\<close> finds this user, and a lookup of the same provider id with
  another spelling \<open>q\<close> of the name answers not-found, without an error.
\<close>

theorem provider_casing:
  assumes "db_open db"
    and name: "w = ''microsoft'' \<or> w = ''github''"
    and casing_p: "list_all2 (\<lambda>l c. c = l \<or> (of_char c :: nat) + 32 = of_char l) w
                     (prof_provider profile)"
    and casing_q: "list_all2 (\<lambda>l c. c = l \<or> (of_char c :: nat) + 32 = of_char l) w q"
    and differ: "q \<noteq> prof_provider profile"
    and valid: "trim (prof_username profile) \<noteq> [] \<and> isValidEmail (trim (prof_email profile)) \<and>
                trim (prof_id profile) \<noteq> []"
    and absent: "\<not> list_ex (\<lambda>r. row_provider_id r = trim (prof_id profile) \<and>
                   (row_provider r = prof_provider profile \<or> row_provider r = q)) (users db)"
    and fresh: "\<not> list_ex (\<lambda>r. row_id r = uuid) (users db)"
  shows "isValidProvider (prof_provider profile) \<and> isValidProvider q
    \<and> (\<exists>user db' found.
          createUser ur uuid t1 t2 profile db = (Inr user, db')
        \<and> user_provider user = prof_provider profile
        \<and> users db' = users db @
             [\<lparr>row_id = uuid, row_username = trim (prof_username profile),
               row_email = trim (prof_email profile), row_provider = prof_provider profile,
               row_provider_id = trim (prof_id profile), row_created_at = t1,
               row_updated_at = t2\<rparr>]
        \<and> findByProviderId uuid' (prof_id profile) q db' = Inr None
        \<and> findByProviderId uuid' (prof_id profile) (prof_provider profile) db' = Inr (Some found)
        \<and> user_provider found = prof_provider profile
        \<and> user_providerId found = trim (prof_id profile))"
proof -
  let ?p = "prof_provider profile"
  let ?row = "\<lparr>row_id = uuid, row_username = trim (prof_username profile),
               row_email = trim (prof_email profile), row_provider = ?p,
               row_provider_id = trim (prof_id profile), row_created_at = t1,
               row_updated_at = t2\<rparr>"
  let ?db' = "db\<lparr>users := users db @ [?row]\<rparr>"
  let ?user = "\<lparr>user_id = uuid, user_username = trim (prof_username profile),
           user_email = trim (prof_email profile), user_provider = ?p,
           user_providerId = trim (prof_id profile), user_createdAt = Some t1,
           user_updatedAt = Some t2\<rparr>"
  have vp: "isValidProvider ?p"
    by (rule casing_isValidProvider [OF name casing_p])
  have vq: "isValidProvider q"
    by (rule casing_isValidProvider [OF name casing_q])
  from valid have u: "trim (prof_username profile) \<noteq> []"
    and e: "isValidEmail (trim (prof_email profile))" and i: "trim (prof_id profile) \<noteq> []"
    by blast+
  from absent have absent_p: "\<not> list_ex (\<lambda>r. row_provider r = ?p \<and>
      row_provider_id r = trim (prof_id profile)) (users db)"
    by (auto simp: list_ex_iff)
  have none_p: "find (\<lambda>r. row_provider_id r = trim (prof_id profile) \<and> row_provider r = ?p)
      (users db) = None"
    using absent by (auto simp: find_None_iff list_ex_iff)
  have none_q: "find (\<lambda>r. row_provider_id r = trim (prof_id profile) \<and> row_provider r = q)
      (users db) = None"
    using absent by (auto simp: find_None_iff list_ex_iff)
  have created: "createUser ur uuid t1 t2 profile db = (Inr ?user, ?db')"
    by (rule createUser_ok [OF assms(1) u e vp i absent_p fresh])
  have open': "db_open ?db'"
    using assms(1) by simp
  have lookup_q: "findByProviderId uuid' (prof_id profile) q ?db' = Inr None"
    using findByProviderId_open [OF open' i vq, of uuid'] none_q differ
    by (simp add: find_snoc)
  have lookup_p: "findByProviderId uuid' (prof_id profile) ?p ?db' =
      Inr (Some (User_fromDatabaseRow uuid' ?row))"
    using findByProviderId_open [OF open' i vp, of uuid'] none_p
    by (simp add: find_snoc)
  have fp: "user_provider (User_fromDatabaseRow uuid' ?row) = ?p"
    and fi: "user_providerId (User_fromDatabaseRow uuid' ?row) = trim (prof_id profile)"
    by (simp_all add: User_fromDatabaseRow_def User_new_def)
  have "\<exists>user db' found.
          createUser ur uuid t1 t2 profile db = (Inr user, db')
        \<and> user_provider user = ?p
        \<and> users db' = users db @ [?row]
        \<and> findByProviderId uuid' (prof_id profile) q db' = Inr None
        \<and> findByProviderId uuid' (prof_id profile) ?p db' = Inr (Some found)
        \<and> user_provider found = ?p
        \<and> user_providerId found = trim (prof_id profile)"
    using created lookup_q lookup_p fp fi
    by (intro exI [of _ ?user] exI [of _ ?db'] exI [of _ "User_fromDatabaseRow uuid' ?row"]) simp
  with vp vq show ?thesis
    by blast
qed

lemma GitHub_casing:
  "list_all2 (\<lambda>l c. c = l \<or> (of_char c :: nat) + 32 = of_char l) ''github'' ''GitHub''"
  by simp

lemma github_casing:
  "list_all2 (\<lambda>l c. c = l \<or> (of_char c :: nat) + 32 = of_char l) ''github'' ''github''"
  by simp

lemma alice_GitHub_valid:
  "trim (prof_username \<lparr>prof_id = ''gh-1'', prof_username = ''alice'', prof_email = ''a@x.com'',
                         prof_provider = ''GitHub''\<rparr>) \<noteq> [] \<and>
   isValidEmail (trim (prof_email \<lparr>prof_id = ''gh-1'', prof_username = ''alice'',
                         prof_email = ''a@x.com'', prof_provider = ''GitHub''\<rparr>)) \<and>
   trim (prof_id \<lparr>prof_id = ''gh-1'', prof_username = ''alice'', prof_email = ''a@x.com'',
                         prof_provider = ''GitHub''\<rparr>) \<noteq> []"
  by code_simp

theorem provider_casing_witness:
  "\<exists>user db'.
      createUser ''uuid-0'' ''uuid-1'' 1000 1000
        \<lparr>prof_id = ''gh-1'', prof_username = ''alice'', prof_email = ''a@x.com'',
          prof_provider = ''GitHub''\<rparr>
        \<lparr>db_open = True, users = [], sessions = []\<rparr> = (Inr user, db')
    \<and> user_provider user = ''GitHub''
    \<and> findByProviderId ''uuid-2'' ''gh-1'' ''github'' db' = Inr None"
proof -
  have opened: "db_open \<lparr>db_open = True, users = [], sessions = []\<rparr>"
    by simp
  have name: "''github'' = ''microsoft'' \<or> ''github'' = ''github''"
    by simp
  have casing_p: "list_all2 (\<lambda>l c. c = l \<or> (of_char c :: nat) + 32 = of_char l) ''github''
      (prof_provider \<lparr>prof_id = ''gh-1'', prof_username = ''alice'', prof_email = ''a@x.com'',
          prof_provider = ''GitHub''\<rparr>)"
    using GitHub_casing by simp
  have differ: "''github'' \<noteq> prof_provider \<lparr>prof_id = ''gh-1'', prof_username = ''alice'',
      prof_email = ''a@x.com'', prof_provider = ''GitHub''\<rparr>"
    by simp
  have absent: "\<not> list_ex (\<lambda>r. row_provider_id r = trim (prof_id \<lparr>prof_id = ''gh-1'',
        prof_username = ''alice'', prof_email = ''a@x.com'', prof_provider = ''GitHub''\<rparr>) \<and>
      (row_provider r = prof_provider \<lparr>prof_id = ''gh-1'', prof_username = ''alice'',
        prof_email = ''a@x.com'', prof_provider = ''GitHub''\<rparr> \<or> row_provider r = ''github''))
      (users \<lparr>db_open = True, users = [], sessions = []\<rparr>)"
    by simp
  have fresh: "\<not> list_ex (\<lambda>r. row_id r = ''uuid-1'') (users \<lparr>db_open = True, users = [], sessions = []\<rparr>)"
    by simp
  from provider_casing [OF opened name casing_p github_casing differ alice_GitHub_valid absent fresh,
      THEN conjunct2, THEN conjunct2, of "''uuid-0''" 1000 1000 "''uuid-2''"]
  show ?thesis
    by auto
qed

subsection \<open>Updates and the identity columns\<close>

lemma single_hit:
  assumes "length (filter P xs) \<le> 1" "find P xs = Some x" "r \<in> set xs" "P r"
  shows "r = x"
proof -
  from assms(2) have "x \<in> set (filter P xs)"
    by (auto simp: find_Some_iff in_set_conv_nth)
  moreover from assms(3,4) have "r \<in> set (filter P xs)"
    by simp
  moreover from assms(1) \<open>x \<in> set (filter P xs)\<close> obtain y where "filter P xs = [y]"
    by (cases "filter P xs") (auto simp: length_Suc_conv)
  ultimately show ?thesis
    by simp
qed

lemma sql_users_update_identity:
  assumes upd: "sql_users_update db dbRow = Inr (n, db')"
    and found: "find (\<lambda>r. row_id r = row_id dbRow) (users db) = Some row"
    and same: "row_provider dbRow = row_provider row" "row_provider_id dbRow = row_provider_id row"
  shows "map (\<lambda>r. (row_id r, row_provider r, row_provider_id r)) (users db') =
         map (\<lambda>r. (row_id r, row_provider r, row_provider_id r)) (users db)"
proof -
  let ?hit = "filter (\<lambda>r. row_id r = row_id dbRow) (users db)"
  from upd have le: "length ?hit \<le> 1"
    by (auto simp: sql_users_update_def Let_def split: if_splits)
  have keep: "row_provider r = row_provider dbRow \<and> row_provider_id r = row_provider_id dbRow"
    if "r \<in> set (users db)" "row_id r = row_id dbRow" for r
    using single_hit [OF le found that] same by simp
  from upd have "users db' =
      map (\<lambda>r. if row_id r = row_id dbRow
                then r\<lparr>row_username := row_username dbRow, row_email := row_email dbRow,
                       row_provider := row_provider dbRow,
                       row_provider_id := row_provider_id dbRow,
                       row_updated_at := row_updated_at dbRow\<rparr>
                else r) (users db)"
    by (auto simp: sql_users_update_def Let_def split: if_splits)
  then show ?thesis
    using keep by (auto simp: map_eq_conv)
qed

lemma findById_Some:
  assumes "findById uuid userId db = Inr (Some u)"
  shows "trim userId \<noteq> [] \<and>
    (\<exists>row. find (\<lambda>r. row_id r = trim userId) (users db) = Some row \<and>
            u = User_fromDatabaseRow uuid row \<and> user_id u = trim userId \<and>
            user_provider u = row_provider row \<and> user_providerId u = row_provider_id row)"
proof -
  from assms have ne: "trim userId \<noteq> []"
    by (auto simp: findById_def sanitizeInput_def Let_def split: if_splits)
  with assms obtain row where row: "find (\<lambda>r. row_id r = trim userId) (users db) = Some row"
    and u: "u = User_fromDatabaseRow uuid row"
    by (auto simp: findById_def sanitizeInput_def sql_users_by_id_def Let_def
        split: if_splits option.splits)
  from row have "row_id row = trim userId"
    by (auto simp: find_Some_iff)
  with ne u have "user_id u = trim userId" "user_provider u = row_provider row"
    "user_providerId u = row_provider_id row"
    by (simp_all add: User_fromDatabaseRow_def User_new_def truthy_def)
  with ne row u show ?thesis
    by blast
qed

lemma updateUser_try_written:
  assumes "updateUser_try uuid now userId profile db = (res, db')"
  shows "db' = db \<or>
    (\<exists>existing dbRow n.
        findById uuid (trim userId) db = Inr (Some existing)
      \<and> User_toDatabaseRow
          (User_update now
             \<lparr>upd_username = map_option sanitizeInput (part_username profile),
              upd_email = map_option sanitizeInput (part_email profile),
              upd_provider = map_option sanitizeInput (part_provider profile),
              upd_providerId = map_option sanitizeInput (part_id profile)\<rparr> existing) = Inr dbRow
      \<and> sql_users_update db dbRow = Inr (n, db'))"
  using assms
  by (auto simp: updateUser_try_def sanitizeInput_def Let_def
      split: if_splits sum.splits option.splits prod.splits)

lemma toDatabaseRow_fields:
  assumes "User_toDatabaseRow u = Inr dbRow"
  shows "row_id dbRow = user_id u \<and> row_provider dbRow = user_provider u \<and>
         row_provider_id dbRow = user_providerId u"
  using assms
  by (auto simp: User_toDatabaseRow_def split: option.splits)

lemma updateUser_identity:
  assumes "part_provider profile = None" "part_id profile = None"
  shows "map (\<lambda>r. (row_id r, row_provider r, row_provider_id r))
           (users (snd (updateUser uuid now userId profile db))) =
         map (\<lambda>r. (row_id r, row_provider r, row_provider_id r)) (users db)"
proof -
  obtain res db' where t: "updateUser_try uuid now userId profile db = (res, db')"
    by (cases "updateUser_try uuid now userId profile db")
  then have s: "snd (updateUser uuid now userId profile db) = db'"
    by (cases res) (simp_all add: updateUser_def)
  from updateUser_try_written [OF t] show ?thesis
  proof
    assume "db' = db"
    with s show ?thesis by simp
  next
    assume "\<exists>existing dbRow n.
        findById uuid (trim userId) db = Inr (Some existing)
      \<and> User_toDatabaseRow
          (User_update now
             \<lparr>upd_username = map_option sanitizeInput (part_username profile),
              upd_email = map_option sanitizeInput (part_email profile),
              upd_provider = map_option sanitizeInput (part_provider profile),
              upd_providerId = map_option sanitizeInput (part_id profile)\<rparr> existing) = Inr dbRow
      \<and> sql_users_update db dbRow = Inr (n, db')"
    then obtain existing dbRow n where f: "findById uuid (trim userId) db = Inr (Some existing)"
      and r: "User_toDatabaseRow
          (User_update now
             \<lparr>upd_username = map_option sanitizeInput (part_username profile),
              upd_email = map_option sanitizeInput (part_email profile),
              upd_provider = map_option sanitizeInput (part_provider profile),
              upd_providerId = map_option sanitizeInput (part_id profile)\<rparr> existing) = Inr dbRow"
      and w: "sql_users_update db dbRow = Inr (n, db')"
      by blast
    from findById_Some [OF f] obtain row
      where row: "find (\<lambda>r. row_id r = trim userId) (users db) = Some row"
        and ex: "user_id existing = trim userId" "user_provider existing = row_provider row"
          "user_providerId existing = row_provider_id row"
      by auto
    from toDatabaseRow_fields [OF r] assms ex
    have d: "row_id dbRow = trim userId" "row_provider dbRow = row_provider row"
      "row_provider_id dbRow = row_provider_id row"
      by (simp_all add: User_update_def)
    from row d(1) have "find (\<lambda>r. row_id r = row_id dbRow) (users db) = Some row"
      by simp
    from sql_users_update_identity [OF w this d(2,3)] s show ?thesis
      by simp
  qed
qed

lemma createUser_appends: "\<exists>rows. users (snd (createUser ur uuid t1 t2 p db)) = users db @ rows"
  by (auto simp: createUser_def createUser_insert_def sql_users_insert_def
      split: sum.splits prod.splits if_splits)

lemma findOrCreateUser_identity:
  "\<exists>rows. map (\<lambda>r. (row_id r, row_provider r, row_provider_id r))
             (users (snd (findOrCreateUser ue p db))) =
           map (\<lambda>r. (row_id r, row_provider r, row_provider_id r)) (users db) @ rows"
proof (cases "findByProviderId (find_uuid ue) (prof_id p) (prof_provider p) db")
  case (Inl e)
  then show ?thesis
    by (simp add: findOrCreateUser_def)
next
  case (Inr found)
  show ?thesis
  proof (cases found)
    case None
    obtain rows where
      "users (snd (createUser (lookup_uuid ue) (new_uuid ue) (created_now ue) (updated_now ue) p db))
         = users db @ rows"
      using createUser_appends by blast
    with Inr None show ?thesis
      by (auto simp: findOrCreateUser_def split: sum.splits prod.splits)
  next
    case (Some user)
    have "map (\<lambda>r. (row_id r, row_provider r, row_provider_id r))
           (users (snd (updateUser (update_uuid ue) (update_now ue) (user_id user)
              \<lparr>part_id = None, part_username = Some (prof_username p),
               part_email = Some (prof_email p), part_provider = None\<rparr> db))) =
         map (\<lambda>r. (row_id r, row_provider r, row_provider_id r)) (users db)"
      by (rule updateUser_identity) simp_all
    with Inr Some show ?thesis
      by (auto simp: findOrCreateUser_def split: sum.splits prod.splits)
  qed
qed

lemma updateUser_returns:
  assumes "fst (updateUser uuid now userId profile db) = Inr u"
  shows "\<exists>row. find (\<lambda>r. row_id r = trim userId) (users db) = Some row
     \<and> user_provider u =
         (case part_provider profile of None \<Rightarrow> row_provider row | Some v \<Rightarrow> trim v)
     \<and> user_providerId u =
         (case part_id profile of None \<Rightarrow> row_provider_id row | Some v \<Rightarrow> trim v)
     \<and> list_all (\<lambda>r. row_id r = trim userId \<longrightarrow>
                      row_provider r = user_provider u \<and> row_provider_id r = user_providerId u)
          (users (snd (updateUser uuid now userId profile db)))"
proof -
  obtain res db' where t: "updateUser_try uuid now userId profile db = (res, db')"
    by (cases "updateUser_try uuid now userId profile db")
  with assms have res: "res = Inr u" and s: "snd (updateUser uuid now userId profile db) = db'"
    by (cases res; simp add: updateUser_def)+
  let ?data = "\<lparr>upd_username = map_option sanitizeInput (part_username profile),
              upd_email = map_option sanitizeInput (part_email profile),
              upd_provider = map_option sanitizeInput (part_provider profile),
              upd_providerId = map_option sanitizeInput (part_id profile)\<rparr>"
  from t res obtain existing dbRow n
    where f: "findById uuid (trim userId) db = Inr (Some existing)"
      and u: "u = User_update now ?data existing"
      and r: "User_toDatabaseRow u = Inr dbRow"
      and w: "sql_users_update db dbRow = Inr (n, db')"
    by (auto simp: updateUser_try_def sanitizeInput_def Let_def
        split: if_splits sum.splits option.splits prod.splits)
  from findById_Some [OF f] obtain row
    where row: "find (\<lambda>r. row_id r = trim userId) (users db) = Some row"
      and ex: "user_id existing = trim userId" "user_provider existing = row_provider row"
        "user_providerId existing = row_provider_id row"
    by auto
  have p: "user_provider u =
         (case part_provider profile of None \<Rightarrow> row_provider row | Some v \<Rightarrow> trim v)"
    and i: "user_providerId u =
         (case part_id profile of None \<Rightarrow> row_provider_id row | Some v \<Rightarrow> trim v)"
    and uid: "user_id u = trim userId"
    using ex by (simp_all add: u User_update_def sanitizeInput_def split: option.splits)
  from toDatabaseRow_fields [OF r] uid
  have d: "row_id dbRow = trim userId" "row_provider dbRow = user_provider u"
    "row_provider_id dbRow = user_providerId u"
    by simp_all
  from w have "users db' =
      map (\<lambda>r. if row_id r = row_id dbRow
                then r\<lparr>row_username := row_username dbRow, row_email := row_email dbRow,
                       row_provider := row_provider dbRow,
                       row_provider_id := row_provider_id dbRow,
                       row_updated_at := row_updated_at dbRow\<rparr>
                else r) (users db)"
    by (auto simp: sql_users_update_def Let_def split: if_splits)
  then have "list_all (\<lambda>r. row_id r = trim userId \<longrightarrow>
                      row_provider r = user_provider u \<and> row_provider_id r = user_providerId u)
          (users db')"
    using d by (auto simp: list_all_iff)
  with row p i s show ?thesis
    by auto
qed

text \<open>
  C5 (as the code has it). \<^verbatim>\<open>updateUser\<close> with a partial profile that carries neither
  \<^verbatim>\<open>provider\<close> nor \<^verbatim>\<open>id\<close> (as the upsert of a login does, which passes the user name and the
  e-mail only) leaves the id, the provider and the provider id of every stored user as they
  are; \<^verbatim>\<open>createUser\<close> only appends rows, and so an upsert changes these columns of no
  existing user. A partial profile that carries \<^verbatim>\<open>provider\<close> or \<^verbatim>\<open>id\<close> is another matter:
  when \<^verbatim>\<open>updateUser\<close> succeeds, the user it returns, and the row it has written, hold the
  trimmed values that the profile gave in place of the stored ones.
\<close>

theorem identity_columns_on_update:
  "(part_provider profile = None \<and> part_id profile = None \<longrightarrow>
      map (\<lambda>r. (row_id r, row_provider r, row_provider_id r))
        (users (snd (updateUser uuid now userId profile db))) =
      map (\<lambda>r. (row_id r, row_provider r, row_provider_id r)) (users db))
   \<and> (\<exists>rows. users (snd (createUser ur uuid t1 t2 p db)) = users db @ rows)
   \<and> (\<exists>rows. map (\<lambda>r. (row_id r, row_provider r, row_provider_id r))
                (users (snd (findOrCreateUser ue p db))) =
              map (\<lambda>r. (row_id r, row_provider r, row_provider_id r)) (users db) @ rows)
   \<and> (fst (updateUser uuid now userId profile db) = Inr u \<longrightarrow>
        (\<exists>row. find (\<lambda>r. row_id r = trim userId) (users db) = Some row
           \<and> user_provider u =
               (case part_provider profile of None \<Rightarrow> row_provider row | Some v \<Rightarrow> trim v)
           \<and> user_providerId u =
               (case part_id profile of None \<Rightarrow> row_provider_id row | Some v \<Rightarrow> trim v)
           \<and> list_all (\<lambda>r. row_id r = trim userId \<longrightarrow>
                  row_provider r = user_provider u \<and> row_provider_id r = user_providerId u)
                (users (snd (updateUser uuid now userId profile db)))))"
proof (intro conjI impI)
  assume "part_provider profile = None \<and> part_id profile = None"
  then show "map (\<lambda>r. (row_id r, row_provider r, row_provider_id r))
        (users (snd (updateUser uuid now userId profile db))) =
      map (\<lambda>r. (row_id r, row_provider r, row_provider_id r)) (users db)"
    by (intro updateUser_identity) simp_all
next
  show "\<exists>rows. users (snd (createUser ur uuid t1 t2 p db)) = users db @ rows"
    by (rule createUser_appends)
next
  show "\<exists>rows. map (\<lambda>r. (row_id r, row_provider r, row_provider_id r))
                (users (snd (findOrCreateUser ue p db))) =
              map (\<lambda>r. (row_id r, row_provider r, row_provider_id r)) (users db) @ rows"
    by (rule findOrCreateUser_identity)
next
  assume "fst (updateUser uuid now userId profile db) = Inr u"
  then show "\<exists>row. find (\<lambda>r. row_id r = trim userId) (users db) = Some row
           \<and> user_provider u =
               (case part_provider profile of None \<Rightarrow> row_provider row | Some v \<Rightarrow> trim v)
           \<and> user_providerId u =
               (case part_id profile of None \<Rightarrow> row_provider_id row | Some v \<Rightarrow> trim v)
           \<and> list_all (\<lambda>r. row_id r = trim userId \<longrightarrow>
                  row_provider r = user_provider u \<and> row_provider_id r = user_providerId u)
                (users (snd (updateUser uuid now userId profile db)))"
    by (rule updateUser_returns)
qed

theorem identity_columns_on_update_witness:
  "map (\<lambda>r. (row_id r, row_provider r, row_provider_id r))
     (users (snd (updateUser ''uuid-9'' 5000 ''u1''
        \<lparr>part_id = None, part_username = Some ''alice2'', part_email = None,
          part_provider = None\<rparr>
        \<lparr>db_open = True,
         users = [\<lparr>row_id = ''u1'', row_username = ''alice'', row_email = ''a@x.com'',
                   row_provider = ''github'', row_provider_id = ''gh-1'',
                   row_created_at = 1000, row_updated_at = 1000\<rparr>],
         sessions = []\<rparr>)))
   = [(''u1'', ''github'', ''gh-1'')]"
proof -
  have hyp: "part_provider \<lparr>part_id = None, part_username = Some ''alice2'', part_email = None,
          part_provider = None\<rparr> = None \<and>
      part_id \<lparr>part_id = None, part_username = Some ''alice2'', part_email = None,
          part_provider = None\<rparr> = None"
    by simp
  from identity_columns_on_update [THEN conjunct1, THEN mp, OF hyp, of "''uuid-9''" 5000 "''u1''"
      "\<lparr>db_open = True,
         users = [\<lparr>row_id = ''u1'', row_username = ''alice'', row_email = ''a@x.com'',
                   row_provider = ''github'', row_provider_id = ''gh-1'',
                   row_created_at = 1000, row_updated_at = 1000\<rparr>],
         sessions = []\<rparr>"]
  show ?thesis
    by simp
qed

theorem identity_columns_on_update_counterexample:
  "updateUser ''uuid-9'' 5000 ''u1''
     \<lparr>part_id = None, part_username = None, part_email = None,
       part_provider = Some ''microsoft''\<rparr>
     \<lparr>db_open = True,
      users = [\<lparr>row_id = ''u1'', row_username = ''alice'', row_email = ''a@x.com'',
                row_provider = ''github'', row_provider_id = ''gh-1'',
                row_created_at = 1000, row_updated_at = 1000\<rparr>],
      sessions = []\<rparr>
   = (Inr \<lparr>user_id = ''u1'', user_username = ''alice'', user_email = ''a@x.com'',
           user_provider = ''microsoft'', user_providerId = ''gh-1'',
           user_createdAt = Some 1000, user_updatedAt = Some 5000\<rparr>,
      \<lparr>db_open = True,
       users = [\<lparr>row_id = ''u1'', row_username = ''alice'', row_email = ''a@x.com'',
                 row_provider = ''microsoft'', row_provider_id = ''gh-1'',
                 row_created_at = 1000, row_updated_at = 5000\<rparr>],
       sessions = []\<rparr>)
   \<and> map row_provider (users (snd (updateUser ''uuid-9'' 5000 ''u1''
     \<lparr>part_id = None, part_username = None, part_email = None,
       part_provider = Some ''microsoft''\<rparr>
     \<lparr>db_open = True,
      users = [\<lparr>row_id = ''u1'', row_username = ''alice'', row_email = ''a@x.com'',
                row_provider = ''github'', row_provider_id = ''gh-1'',
                row_created_at = 1000, row_updated_at = 1000\<rparr>],
      sessions = []\<rparr>)))
     \<noteq> map row_provider [\<lparr>row_id = ''u1'', row_username = ''alice'', row_email = ''a@x.com'',
                row_provider = ''github'', row_provider_id = ''gh-1'',
                row_created_at = 1000, row_updated_at = 1000\<rparr>]"
  by code_simp

end
